theory Spec2Isabelle
  imports Complex_Main "HOL-Library.Sublist"
begin

section \<open>The values of the ECMAScript runtime that index.js works on\<close>

text \<open>
  A string is a list of bytes, the UTF-8 text of the JavaScript string (a string with an
  unpaired surrogate has no UTF-8 text and no counterpart here). An exception is
  carried by its \<open>message\<close>: every value thrown in index.js or by the runtime under it is an
  \<open>Error\<close> object, and the handlers read nothing of it but \<open>error.message\<close>.
\<close>

datatype 'a result = Throw string | Return 'a

fun and_then :: "'a result \<Rightarrow> ('a \<Rightarrow> 'b result) \<Rightarrow> 'b result" where
  "and_then (Throw m) f = Throw m"
| "and_then (Return x) f = f x"

text \<open>\<open>xs.map(f)\<close> for a callback that may throw: left to right, the first throw wins.\<close>

fun traverse :: "('a \<Rightarrow> 'b result) \<Rightarrow> 'a list \<Rightarrow> 'b list result" where
  "traverse f [] = Return []"
| "traverse f (x # xs) =
     and_then (f x) (\<lambda>y. and_then (traverse f xs) (\<lambda>ys. Return (y # ys)))"

text \<open>The same for results computed one by one.\<close>

fun sequence :: "'a result list \<Rightarrow> 'a list result" where
  "sequence [] = Return []"
| "sequence (r # rs) = and_then r (\<lambda>y. and_then (sequence rs) (\<lambda>ys. Return (y # ys)))"

text \<open>
  A value parsed from JSON. A number is carried by the text \<open>Number::toString\<close> gives for
  it: \<open>0\<close> and \<open>-0\<close> both print as \<open>0\<close>, and a literal beyond the range of a double, as
  \<open>1e400\<close>, parses to the number whose text is \<open>Infinity\<close> (or \<open>-Infinity\<close>). Printing and
  testing for truth is all index.js does with a parsed number. An object is the list of
  its own properties in the order the runtime enumerates them, each name once.
  \<open>undefined\<close> is \<open>None\<close> of \<open>json option\<close>.
\<close>

datatype json =
    JNull
  | JBool bool
  | JNum string
  | JStr string
  | JArr "json list"
  | JObj "(string \<times> json) list"

fun join :: "string \<Rightarrow> string list \<Rightarrow> string" where
  "join sep [] = []"
| "join sep [x] = x"
| "join sep (x # y # ys) = x @ sep @ join sep (y # ys)"

text \<open>ToBoolean.\<close>

fun truthy :: "json \<Rightarrow> bool" where
  "truthy JNull = False"
| "truthy (JBool b) = b"
| "truthy (JNum n) = (n \<noteq> ''0'' \<and> n \<noteq> ''NaN'')"
| "truthy (JStr s) = (s \<noteq> [])"
| "truthy (JArr xs) = True"
| "truthy (JObj kvs) = True"

text \<open>\<open>a || b\<close> with \<open>a\<close> possibly undefined.\<close>

fun or_else :: "json option \<Rightarrow> json \<Rightarrow> json" where
  "or_else None d = d"
| "or_else (Some v) d = (if truthy v then v else d)"

text \<open>
  Reading an own property. index.js reads only \<open>data\<close>, \<open>content\<close>, \<open>usage\<close>, \<open>title\<close>,
  \<open>url\<close>, \<open>description\<close> and \<open>date\<close>, and ToString looks for \<open>toString\<close>; a primitive or an
  array has no own property of these names, and none but \<open>toString\<close> is inherited, so
  there the read gives \<open>undefined\<close>. On \<open>null\<close> the read throws a TypeError (V8's wording).
\<close>

fun member :: "json \<Rightarrow> string \<Rightarrow> json option" where
  "member (JObj kvs) k = map_of kvs k"
| "member v k = None"

definition read_prop :: "json \<Rightarrow> string \<Rightarrow> json option result" where
  "read_prop v k =
     (if v = JNull
      then Throw (''Cannot read properties of null (reading '' @ [CHR 0x27] @ k @ [CHR 0x27] @ '')'')
      else Return (member v k))"

text \<open>
  ToString, as a template literal applies it. An array prints its elements joined by
  commas, \<open>null\<close> elements as the empty string, and the ToString of an element may throw.
  An object parsed from JSON prints as \<open>[object Object]\<close> through \<open>Object.prototype.toString\<close>,
  unless it has an own property \<open>toString\<close>: a parsed value is never callable, so
  OrdinaryToPrimitive then finds neither a callable \<open>toString\<close> nor a \<open>valueOf\<close> that returns
  a primitive, and throws a TypeError (V8's wording).
\<close>

fun ToString :: "json \<Rightarrow> string result" where
  "ToString JNull = Return ''null''"
| "ToString (JBool b) = Return (if b then ''true'' else ''false'')"
| "ToString (JNum n) = Return n"
| "ToString (JStr s) = Return s"
| "ToString (JArr xs) =
     and_then (sequence (map (\<lambda>x. if x = JNull then Return [] else ToString x) xs))
       (\<lambda>texts. Return (join '','' texts))"
| "ToString (JObj kvs) =
     (if member (JObj kvs) ''toString'' \<noteq> None
      then Throw ''Cannot convert object to primitive value''
      else Return ''[object Object]'')"

text \<open>The decimal text of a natural number (\<open>${index + 1}\<close>, \<open>${response.status}\<close>).\<close>

fun show_nat :: "nat \<Rightarrow> string" where
  "show_nat n =
     (if n < 10 then [''0123456789'' ! n]
      else show_nat (n div 10) @ [''0123456789'' ! (n mod 10)])"

declare show_nat.simps [simp del]

subsection \<open>JSON.stringify\<close>

definition hexdigit :: "nat \<Rightarrow> char" where
  "hexdigit n = ''0123456789abcdef'' ! (n mod 16)"

definition quote_char :: "char \<Rightarrow> string" where
  "quote_char c =
    (if c = CHR 0x08 then [CHR 0x5C, CHR ''b'']
     else if c = CHR 0x09 then [CHR 0x5C, CHR ''t'']
     else if c = CHR 0x0A then [CHR 0x5C, CHR ''n'']
     else if c = CHR 0x0C then [CHR 0x5C, CHR ''f'']
     else if c = CHR 0x0D then [CHR 0x5C, CHR ''r'']
     else if c = CHR 0x22 then [CHR 0x5C, CHR 0x22]
     else if c = CHR 0x5C then [CHR 0x5C, CHR 0x5C]
     else if (of_char c :: nat) < 32
       then [CHR 0x5C] @ ''u00'' @ [hexdigit (of_char c div 16), hexdigit (of_char c)]
     else [c])"

definition QuoteJSONString :: "string \<Rightarrow> string" where
  "QuoteJSONString s = [CHR 0x22] @ concat (map quote_char s) @ [CHR 0x22]"

text \<open>
  \<open>stringify gap indent v\<close> is SerializeJSONProperty: \<open>JSON.stringify(v)\<close> is
  \<open>stringify [] [] v\<close> and \<open>JSON.stringify(v, null, 2)\<close> is \<open>stringify ''  '' [] v\<close>. A number
  that is not finite prints as \<open>null\<close>; a parsed value has no callable \<open>toJSON\<close>.
\<close>

fun stringify :: "string \<Rightarrow> string \<Rightarrow> json \<Rightarrow> string" where
  "stringify gap ind JNull = ''null''"
| "stringify gap ind (JBool b) = (if b then ''true'' else ''false'')"
| "stringify gap ind (JNum n) =
    (if n = ''Infinity'' \<or> n = ''-Infinity'' \<or> n = ''NaN'' then ''null'' else n)"
| "stringify gap ind (JStr s) = QuoteJSONString s"
| "stringify gap ind (JArr xs) =
    (if xs = [] then ''[]''
     else if gap = [] then ''['' @ join '','' (map (stringify gap (ind @ gap)) xs) @ '']''
     else ''['' @ [CHR 0x0A] @ (ind @ gap)
          @ join ('','' @ [CHR 0x0A] @ (ind @ gap)) (map (stringify gap (ind @ gap)) xs)
          @ [CHR 0x0A] @ ind @ '']'')"
| "stringify gap ind (JObj kvs) =
    (if kvs = [] then ''{}''
     else if gap = [] then
       ''{'' @ join '',''
                (map (\<lambda>(k, v). QuoteJSONString k @ '':'' @ stringify gap (ind @ gap) v) kvs)
           @ ''}''
     else ''{'' @ [CHR 0x0A] @ (ind @ gap)
          @ join ('','' @ [CHR 0x0A] @ (ind @ gap))
              (map (\<lambda>(k, v). QuoteJSONString k @ '': '' @ stringify gap (ind @ gap) v) kvs)
          @ [CHR 0x0A] @ ind @ ''}'')"

subsection \<open>encodeURIComponent and toLowerCase\<close>

definition HEXDIGIT :: "nat \<Rightarrow> char" where
  "HEXDIGIT n = ''0123456789ABCDEF'' ! (n mod 16)"

definition unreserved :: "char \<Rightarrow> bool" where
  "unreserved c \<longleftrightarrow>
     c \<in> set ''ABCDEFGHIJKLMNOPQRSTUVWXYZabcdefghijklmnopqrstuvwxyz0123456789-_.!~*()''
     \<or> c = CHR 0x27"

definition encodeURIComponent :: "string \<Rightarrow> string" where
  "encodeURIComponent s =
     concat (map (\<lambda>c. if unreserved c then [c]
                       else [CHR ''%'', HEXDIGIT (of_char c div 16), HEXDIGIT (of_char c)]) s)"

text \<open>\<open>toLowerCase\<close> on ASCII text, which the names of the formats are.\<close>

definition toLowerCase :: "string \<Rightarrow> string" where
  "toLowerCase s =
     map (\<lambda>c. case map_of (zip ''ABCDEFGHIJKLMNOPQRSTUVWXYZ'' ''abcdefghijklmnopqrstuvwxyz'') c of
                None \<Rightarrow> c
              | Some l \<Rightarrow> l) s"

section \<open>Header objects on the heap\<close>

text \<open>
  A header object is a JavaScript object: its own properties in insertion order, a value
  being a string or \<open>undefined\<close>. Objects live on a heap and are passed by reference, so
  that what a call does to the object of its caller can be said.
\<close>

datatype hval = HStr string | HUndefined

type_synonym object = "(string \<times> hval) list"
type_synonym ref = nat
type_synonym heap = "object list"

text \<open>\<open>obj[name] = v\<close>: overwrites the property in place, or appends a new one.\<close>

fun assign :: "string \<Rightarrow> hval \<Rightarrow> object \<Rightarrow> object" where
  "assign name v [] = [(name, v)]"
| "assign name v (p # ps) = (if fst p = name then (name, v) # ps else p # assign name v ps)"

definition alloc :: "object \<Rightarrow> heap \<Rightarrow> ref \<times> heap" where
  "alloc obj h = (length h, h @ [obj])"

section \<open>Credential resolver and header builder\<close>

text \<open>\<open>process.env\<close>: a map from names to strings.\<close>

type_synonym env = "string \<rightharpoonup> string"

definition getJinaApiKey :: "env \<Rightarrow> string option" where
  "getJinaApiKey env =
     (case env ''JINA_API_KEY'' of
        None \<Rightarrow> None
      | Some v \<Rightarrow> if v \<noteq> [] then Some v else None)"

text \<open>
  \<open>createHeaders(baseHeaders = {})\<close>: the argument is a reference or \<open>undefined\<close> (\<open>None\<close>,
  for which the default \<open>{}\<close> stands). \<open>{ ...baseHeaders }\<close> allocates a new object with
  the own properties of the argument; the assignment writes to the new object.
\<close>

definition createHeaders :: "env \<Rightarrow> ref option \<Rightarrow> heap \<Rightarrow> ref \<times> heap" where
  "createHeaders env baseHeaders h =
     (let (headers, h1) = alloc (case baseHeaders of None \<Rightarrow> [] | Some b \<Rightarrow> h ! b) h;
          apiKey = getJinaApiKey env
      in case apiKey of
           None \<Rightarrow> (headers, h1)
         | Some k \<Rightarrow>
             if k \<noteq> []
             then (headers,
                   h1[headers := assign ''Authorization'' (HStr (''Bearer '' @ k)) (h1 ! headers)])
             else (headers, h1))"

section \<open>The outbound request and the upstream's answer\<close>

record request =
  req_url :: string
  req_method :: string
  req_headers :: object
  req_body :: "string option"

text \<open>
  A response: its status, what \<open>response.text()\<close> resolves to (or rejects with) and what
  \<open>response.json()\<close> resolves to (or rejects with). \<open>response.ok\<close> is the fetch standard's
  "status in 200..299".
\<close>

record response =
  status :: nat
  body_text :: "string result"
  body_json :: "json result"

definition ok :: "response \<Rightarrow> bool" where
  "ok r \<longleftrightarrow> 200 \<le> status r \<and> status r < 300"

text \<open>\<open>fetch\<close>: resolves to a response or rejects (network failure).\<close>

type_synonym fetch = "request \<Rightarrow> response result"

text \<open>The result envelope; a content item is \<open>{ type: "text", text: v }\<close>.\<close>

datatype content_item = TextContent json

record envelope =
  content :: "content_item list"
  isError :: "bool option"

text \<open>What both \<open>catch (error)\<close> blocks return.\<close>

definition error_envelope :: "string \<Rightarrow> envelope" where
  "error_envelope message =
     \<lparr>content = [TextContent (JStr (''Error: '' @ message))], isError = Some True\<rparr>"

definition catch :: "envelope result \<Rightarrow> envelope" where
  "catch r = (case r of Throw message \<Rightarrow> error_envelope message | Return e \<Rightarrow> e)"

section \<open>The jina\_reader tool\<close>

datatype format = Default | Markdown | HTML | Text | Screenshot | Pageshot

fun format_name :: "format \<Rightarrow> string" where
  "format_name Default = ''Default''"
| "format_name Markdown = ''Markdown''"
| "format_name HTML = ''HTML''"
| "format_name Text = ''Text''"
| "format_name Screenshot = ''Screenshot''"
| "format_name Pageshot = ''Pageshot''"

record reader_input =
  url :: string
  format :: format
  withLinks :: bool
  withImages :: bool
  useReaderLM :: bool

text \<open>The object literal the handler passes to \<open>createHeaders\<close>.\<close>

definition reader_literal :: "reader_input \<Rightarrow> object" where
  "reader_literal a =
     [(''Content-Type'', HStr ''application/json''),
      (''Accept'', HStr ''application/json''),
      (''X-With-Links-Summary'', HStr (if withLinks a then ''true'' else ''false'')),
      (''X-With-Images-Summary'', HStr (if withImages a then ''true'' else ''false'')),
      (''X-Return-Format'', HStr (toLowerCase (format_name (format a)))),
      (''X-Respond-With'', if useReaderLM a then HStr ''readerlm-v2'' else HUndefined),
      (''X-With-Generated-Alt'', HStr ''true''),
      (''X-With-Iframe'', HStr ''true''),
      (''X-With-Shadow-Dom'', HStr ''true'')]"

definition reader_headers :: "env \<Rightarrow> reader_input \<Rightarrow> object" where
  "reader_headers env a =
     (let (literal, h0) = alloc (reader_literal a) [];
          (headers, h1) = createHeaders env (Some literal) h0
      in h1 ! headers)"

definition reader_request :: "env \<Rightarrow> reader_input \<Rightarrow> request" where
  "reader_request env a =
     \<lparr>req_url = ''https://r.jina.ai/'', req_method = ''POST'',
      req_headers = reader_headers env a,
      req_body = Some (stringify [] [] (JObj [(''url'', JStr (url a))]))\<rparr>"

text \<open>\<open>data.data?.content\<close>, given the value of \<open>data.data\<close>.\<close>

fun optional_content :: "json option \<Rightarrow> json option" where
  "optional_content None = None"
| "optional_content (Some JNull) = None"
| "optional_content (Some v) = member v ''content''"

text \<open>The body of the \<open>try\<close> block.\<close>

definition jina_reader_try :: "env \<Rightarrow> fetch \<Rightarrow> reader_input \<Rightarrow> envelope result" where
  "jina_reader_try env fetch a =
     and_then (fetch (reader_request env a)) (\<lambda>response.
       if \<not> ok response then
         and_then (body_text response) (\<lambda>errorText.
           Throw (''Jina Reader API error ('' @ show_nat (status response) @ ''): '' @ errorText))
       else
         and_then (body_json response) (\<lambda>data.
           and_then (read_prop data ''data'') (\<lambda>d.
             Return \<lparr>content =
                       [TextContent (or_else (optional_content d)
                                       (JStr (stringify ''  '' [] data)))],
                     isError = None\<rparr>)))"

definition jina_reader :: "env \<Rightarrow> fetch \<Rightarrow> reader_input \<Rightarrow> envelope" where
  "jina_reader env fetch a = catch (jina_reader_try env fetch a)"

section \<open>The jina\_search tool\<close>

datatype returnFormat = Fmt_markdown | Fmt_text | Fmt_html

text \<open>
  \<open>if (count && count > 0 && results.length > count) results = results.slice(0, count)\<close>
  on an array; \<open>slice\<close> truncates its bound to an integer.
\<close>

definition truncate_results :: "rat \<Rightarrow> json list \<Rightarrow> json list" where
  "truncate_results count results =
     (if count \<noteq> 0 \<and> count > 0 \<and> of_nat (length results) > count
      then take (nat \<lfloor>count\<rfloor>) results
      else results)"

text \<open>\<open>if (result.usage) delete result.usage; return result\<close>.\<close>

fun delete_prop :: "string \<Rightarrow> json \<Rightarrow> json" where
  "delete_prop k (JObj kvs) = JObj (filter (\<lambda>p. fst p \<noteq> k) kvs)"
| "delete_prop k v = v"

definition strip_usage :: "json \<Rightarrow> json result" where
  "strip_usage result =
     and_then (read_prop result ''usage'') (\<lambda>usage.
       Return (if truthy (or_else usage JNull) then delete_prop ''usage'' result else result))"

text \<open>
  The template pieces \<open>${x || d}\<close> and \<open>${result.date ? `Date: ${result.date}` : ''}\<close>. A
  template literal evaluates its expressions from left to right and applies ToString to
  each as it goes, so a piece may throw.
\<close>

definition or_text :: "json option \<Rightarrow> string \<Rightarrow> string result" where
  "or_text x d = ToString (or_else x (JStr d))"

fun date_text :: "json option \<Rightarrow> string result" where
  "date_text None = Return []"
| "date_text (Some date) =
     (if truthy date then and_then (ToString date) (\<lambda>s. Return (''Date: '' @ s))
      else Return [])"

definition markdown_item :: "nat \<Rightarrow> json \<Rightarrow> string result" where
  "markdown_item index result =
     and_then (read_prop result ''title'') (\<lambda>title.
     and_then (or_text title ''Untitled'') (\<lambda>t.
     and_then (read_prop result ''url'') (\<lambda>url.
     and_then (or_text url []) (\<lambda>u.
     and_then (read_prop result ''description'') (\<lambda>description.
     and_then (or_text description []) (\<lambda>d.
     and_then (read_prop result ''date'') (\<lambda>date.
     and_then (date_text date) (\<lambda>dt.
       Return (show_nat (index + 1) @ ''. **'' @ t @ ''**''
               @ [CHR 0x0A] @ ''   '' @ u
               @ [CHR 0x0A] @ ''   '' @ d
               @ [CHR 0x0A] @ ''   '' @ dt @ [CHR 0x0A])))))))))"

definition html_item :: "json \<Rightarrow> string result" where
  "html_item result =
     and_then (read_prop result ''title'') (\<lambda>title.
     and_then (or_text title ''Untitled'') (\<lambda>t.
     and_then (read_prop result ''url'') (\<lambda>url.
     and_then (or_text url []) (\<lambda>u.
     and_then (read_prop result ''url'') (\<lambda>url2.
     and_then (or_text url2 []) (\<lambda>u2.
     and_then (read_prop result ''description'') (\<lambda>description.
     and_then (or_text description []) (\<lambda>d.
     and_then (read_prop result ''date'') (\<lambda>date.
     and_then (date_text date) (\<lambda>dt.
       Return (''<li><strong>'' @ t @ ''</strong><br>''
               @ [CHR 0x0A] @ ''           '' @ ''<a href='' @ [CHR 0x22] @ u
               @ [CHR 0x22] @ ''>'' @ u2 @ ''</a><br>''
               @ [CHR 0x0A] @ ''           '' @ d @ ''<br>''
               @ [CHR 0x0A] @ ''           '' @ dt @ ''</li>'')))))))))))"

definition text_item :: "nat \<Rightarrow> json \<Rightarrow> string result" where
  "text_item index result =
     and_then (read_prop result ''title'') (\<lambda>title.
     and_then (or_text title ''Untitled'') (\<lambda>t.
     and_then (read_prop result ''url'') (\<lambda>url.
     and_then (or_text url []) (\<lambda>u.
     and_then (read_prop result ''description'') (\<lambda>description.
     and_then (or_text description []) (\<lambda>d.
     and_then (read_prop result ''date'') (\<lambda>date.
     and_then (date_text date) (\<lambda>dt.
       Return (show_nat (index + 1) @ ''. '' @ t
               @ [CHR 0x0A] @ ''   '' @ u
               @ [CHR 0x0A] @ ''   '' @ d
               @ [CHR 0x0A] @ ''   '' @ dt)))))))))"

text \<open>\<open>results.map((result, index) => ...)\<close>: the items with their indices.\<close>

definition indexed :: "'a list \<Rightarrow> (nat \<times> 'a) list" where
  "indexed xs = zip [0..<length xs] xs"

definition formattedOutput :: "returnFormat \<Rightarrow> json list \<Rightarrow> string result" where
  "formattedOutput fmt results =
     (if fmt = Fmt_markdown then
        and_then (traverse (\<lambda>(index, result). markdown_item index result) (indexed results))
          (\<lambda>items. Return (join [CHR 0x0A] items))
      else if fmt = Fmt_html then
        and_then (traverse html_item results)
          (\<lambda>items. Return (''<ol>'' @ join [] items @ ''</ol>''))
      else
        and_then (traverse (\<lambda>(index, result). text_item index result) (indexed results))
          (\<lambda>items. Return (join [CHR 0x0A, CHR 0x0A] items)))"

text \<open>
  What the handler does with the truncated list: drop \<open>usage\<close> from every item, format,
  and return the envelope.
\<close>

definition respond :: "returnFormat \<Rightarrow> json list \<Rightarrow> envelope result" where
  "respond fmt results =
     and_then (traverse strip_usage results) (\<lambda>results.
     and_then (formattedOutput fmt results) (\<lambda>formatted.
       Return \<lparr>content = [TextContent (JStr formatted)], isError = None\<rparr>))"

text \<open>
  From \<open>let results = data.data || []\<close> on. Of a value that is not an array nothing parsed
  from JSON has a callable \<open>map\<close>, so the call throws a TypeError (V8's wording; when such
  a value is an object whose \<open>length\<close> compares above \<open>count\<close> the TypeError comes from
  \<open>results.slice\<close> and names that instead).
\<close>

definition search_results :: "rat \<Rightarrow> returnFormat \<Rightarrow> json \<Rightarrow> envelope result" where
  "search_results count fmt data =
     and_then (read_prop data ''data'') (\<lambda>d.
       case or_else d (JArr []) of
         JArr results \<Rightarrow> respond fmt (truncate_results count results)
       | _ \<Rightarrow> Throw ''results.map is not a function'')"

text \<open>
  \<open>count\<close> is any number the schema lets through (\<open>z.number()\<close>); \<open>siteFilter\<close> is a string
  or absent.
\<close>

record search_input =
  query :: string
  count :: rat
  returnFormat :: returnFormat
  siteFilter :: "string option"

definition search_headers :: "env \<Rightarrow> search_input \<Rightarrow> object" where
  "search_headers env a =
     (let (baseHeaders, h0) = alloc
            [(''Accept'', HStr ''application/json''),
             (''X-Respond-With'', HStr ''no-content''),
             (''X-With-Favicons'', HStr ''true'')] [];
          h1 = (case siteFilter a of
                  None \<Rightarrow> h0
                | Some s \<Rightarrow>
                    if s \<noteq> []
                    then h0[baseHeaders := assign ''X-Site'' (HStr (''https://'' @ s)) (h0 ! baseHeaders)]
                    else h0);
          (headers, h2) = createHeaders env (Some baseHeaders) h1
      in h2 ! headers)"

definition search_request :: "env \<Rightarrow> search_input \<Rightarrow> request" where
  "search_request env a =
     \<lparr>req_url = ''https://s.jina.ai/?q='' @ encodeURIComponent (query a), req_method = ''GET'',
      req_headers = search_headers env a,
      req_body = None\<rparr>"

text \<open>
  The body of the \<open>try\<close> block. \<open>JSON_parse\<close> is the runtime's \<open>JSON.parse\<close>: the parsed
  value, or the message of its SyntaxError.
\<close>

definition jina_search_try ::
  "env \<Rightarrow> fetch \<Rightarrow> (string \<Rightarrow> json result) \<Rightarrow> search_input \<Rightarrow> envelope result" where
  "jina_search_try env fetch JSON_parse a =
     and_then (fetch (search_request env a)) (\<lambda>response.
       if \<not> ok response then
         and_then (body_text response) (\<lambda>errorText.
           Throw (''Jina Search API error ('' @ show_nat (status response) @ ''): '' @ errorText))
       else
         and_then (body_text response) (\<lambda>body.
           and_then (JSON_parse body) (\<lambda>data.
             search_results (count a) (returnFormat a) data)))"

definition jina_search ::
  "env \<Rightarrow> fetch \<Rightarrow> (string \<Rightarrow> json result) \<Rightarrow> search_input \<Rightarrow> envelope" where
  "jina_search env fetch JSON_parse a = catch (jina_search_try env fetch JSON_parse a)"

section \<open>Stubbed upstreams\<close>

text \<open>An upstream that gives every request the same answer, and a parser likewise.\<close>

definition stub_fetch :: "response result \<Rightarrow> fetch" where
  "stub_fetch answer request = answer"

definition stub_parse :: "json result \<Rightarrow> string \<Rightarrow> json result" where
  "stub_parse answer body = answer"

section \<open>Facts about the header builder\<close>

lemma getJinaApiKey_nonempty: "getJinaApiKey env = Some k \<Longrightarrow> k \<noteq> []"
  by (auto simp: getJinaApiKey_def split: option.splits if_splits)

lemma getJinaApiKey_unset: "env ''JINA_API_KEY'' = None \<Longrightarrow> getJinaApiKey env = None"
  by (simp add: getJinaApiKey_def)

lemma getJinaApiKey_set:
  "env ''JINA_API_KEY'' = Some v \<Longrightarrow> v \<noteq> [] \<Longrightarrow> getJinaApiKey env = Some v"
  by (simp add: getJinaApiKey_def)

lemma createHeaders_Some:
  "createHeaders env (Some b) h =
     (length h,
      h @ [case getJinaApiKey env of
             None \<Rightarrow> h ! b
           | Some k \<Rightarrow> assign ''Authorization'' (HStr (''Bearer '' @ k)) (h ! b)])"
  by (auto simp: createHeaders_def alloc_def Let_def nth_append
           split: option.splits dest: getJinaApiKey_nonempty)

lemma createHeaders_None:
  "createHeaders env None h =
     (length h,
      h @ [case getJinaApiKey env of
             None \<Rightarrow> []
           | Some k \<Rightarrow> [(''Authorization'', HStr (''Bearer '' @ k))]])"
  by (auto simp: createHeaders_def alloc_def Let_def nth_append
           split: option.splits dest: getJinaApiKey_nonempty)

lemma map_of_assign: "map_of (assign name v ps) = (map_of ps)(name \<mapsto> v)"
  by (induction ps) (auto simp: fun_eq_iff)

lemma filter_assign_other:
  "name \<noteq> k \<Longrightarrow> filter (\<lambda>p. fst p = k) (assign name v ps) = filter (\<lambda>p. fst p = k) ps"
  by (induction ps) auto

lemma assign_fresh: "name \<notin> fst ` set ps \<Longrightarrow> assign name v ps = ps @ [(name, v)]"
  by (induction ps) auto

lemma reader_headers_eq:
  "reader_headers env a =
     (case getJinaApiKey env of
        None \<Rightarrow> reader_literal a
      | Some k \<Rightarrow> reader_literal a @ [(''Authorization'', HStr (''Bearer '' @ k))])"
  by (simp add: reader_headers_def createHeaders_Some alloc_def reader_literal_def
           split: option.splits)

lemma search_headers_eq:
  "search_headers env a =
     [(''Accept'', HStr ''application/json''),
      (''X-Respond-With'', HStr ''no-content''),
      (''X-With-Favicons'', HStr ''true'')]
     @ (case siteFilter a of
          None \<Rightarrow> []
        | Some s \<Rightarrow> if s \<noteq> [] then [(''X-Site'', HStr (''https://'' @ s))] else [])
     @ (case getJinaApiKey env of
          None \<Rightarrow> []
        | Some k \<Rightarrow> [(''Authorization'', HStr (''Bearer '' @ k))])"
  by (simp add: search_headers_def createHeaders_Some alloc_def split: option.splits)

section \<open>Facts about the handlers\<close>


lemma catch_Return: "catch (Return e) = e"
  by (simp add: catch_def)


lemma read_prop_nonnull: "v \<noteq> JNull \<Longrightarrow> read_prop v k = Return (member v k)"
  by (simp add: read_prop_def)

lemma jina_reader_ok:
  "fetch (reader_request env a) = Return r \<Longrightarrow> ok r \<Longrightarrow> body_json r = Return data \<Longrightarrow>
   jina_reader env fetch a =
     catch (and_then (read_prop data ''data'') (\<lambda>d.
       Return \<lparr>content = [TextContent (or_else (optional_content d)
                                         (JStr (stringify ''  '' [] data)))],
               isError = None\<rparr>))"
  by (simp add: jina_reader_def jina_reader_try_def)

lemma member_Some_nonnull: "member data k = Some v \<Longrightarrow> data \<noteq> JNull"
  by (cases data) auto

lemma jina_search_ok:
  "fetch (search_request env a) = Return r \<Longrightarrow> ok r \<Longrightarrow> body_text r = Return b \<Longrightarrow>
   JSON_parse b = Return data \<Longrightarrow>
   jina_search env fetch JSON_parse a = catch (search_results (count a) (returnFormat a) data)"
  by (simp add: jina_search_def jina_search_try_def)

lemma search_results_array:
  "member data ''data'' = Some (JArr results) \<Longrightarrow>
   search_results c fmt data = respond fmt (truncate_results c results)"
  by (frule member_Some_nonnull) (simp add: search_results_def read_prop_nonnull)

lemma respond_empty:
  "respond fmt [] =
     Return \<lparr>content = [TextContent (JStr (if fmt = Fmt_html then ''<ol></ol>'' else []))],
             isError = None\<rparr>"
  by (simp add: respond_def formattedOutput_def indexed_def)

lemma traverse_Return_iff:
  "traverse f xs = Return ys \<longleftrightarrow>
     length ys = length xs \<and> (\<forall>i < length xs. f (xs ! i) = Return (ys ! i))"
proof (induction xs arbitrary: ys)
  case Nil
  then show ?case by auto
next
  case (Cons x xs)
  show ?case
  proof (cases "f x")
    case (Throw m)
    then show ?thesis by auto
  next
    case fx: (Return y)
    show ?thesis
    proof (cases "traverse f xs")
      case (Throw m)
      have "\<not> (length ys = length (x # xs) \<and> (\<forall>i < length (x # xs). f ((x # xs) ! i) = Return (ys ! i)))"
      proof
        assume a: "length ys = length (x # xs) \<and> (\<forall>i < length (x # xs). f ((x # xs) ! i) = Return (ys ! i))"
        then obtain z zs where ys: "ys = z # zs" by (cases ys) auto
        from a ys have "length zs = length xs \<and> (\<forall>i < length xs. f (xs ! i) = Return (zs ! i))"
          by fastforce
        then have "traverse f xs = Return zs" using Cons.IH by blast
        with Throw show False by simp
      qed
      with fx Throw show ?thesis by simp
    next
      case rest: (Return zs)
      then have zs: "length zs = length xs" "\<forall>i < length xs. f (xs ! i) = Return (zs ! i)"
        using Cons.IH [of zs] by auto
      show ?thesis
      proof
        assume "traverse f (x # xs) = Return ys"
        with fx rest have ys: "ys = y # zs" by simp
        show "length ys = length (x # xs) \<and> (\<forall>i < length (x # xs). f ((x # xs) ! i) = Return (ys ! i))"
          using ys zs fx by (auto simp: nth_Cons split: nat.splits)
      next
        assume a: "length ys = length (x # xs) \<and> (\<forall>i < length (x # xs). f ((x # xs) ! i) = Return (ys ! i))"
        then obtain z ws where ys: "ys = z # ws" by (cases ys) auto
        from a ys have "f x = Return z" by fastforce
        with fx have z: "z = y" by simp
        from a ys have "length ws = length xs \<and> (\<forall>i < length xs. f (xs ! i) = Return (ws ! i))"
          by fastforce
        then have "traverse f xs = Return ws" using Cons.IH by blast
        with rest have "ws = zs" by simp
        with ys z fx rest show "traverse f (x # xs) = Return ys" by simp
      qed
    qed
  qed
qed

lemma traverse_total:
  "(\<forall>x \<in> set xs. \<exists>y. f x = Return y) \<Longrightarrow> \<exists>ys. traverse f xs = Return ys"
  by (induction xs) auto

lemma traverse_snd: "traverse (\<lambda>(index, result). f result) ps = traverse f (map snd ps)"
  by (induction ps) auto

lemma map_snd_indexed: "map snd (indexed xs) = xs"
  by (simp add: indexed_def)

lemma indexed_nth: "i < length xs \<Longrightarrow> indexed xs ! i = (i, xs ! i)"
  by (simp add: indexed_def)

lemma length_indexed: "length (indexed xs) = length xs"
  by (simp add: indexed_def)

lemma map_of_filter_other:
  "k \<noteq> name \<Longrightarrow> map_of (filter (\<lambda>p. fst p \<noteq> name) kvs) k = map_of kvs k"
  by (induction kvs) auto

lemma strip_usage_nonnull:
  "x \<noteq> JNull \<Longrightarrow>
   \<exists>y. strip_usage x = Return y \<and> y \<noteq> JNull
       \<and> (\<forall>k. k \<noteq> ''usage'' \<longrightarrow> member y k = member x k)"
  by (cases x) (auto simp: strip_usage_def read_prop_def map_of_filter_other)

lemma markdown_item_eq:
  "y \<noteq> JNull \<Longrightarrow> or_text (member y ''title'') ''Untitled'' = Return t \<Longrightarrow>
   or_text (member y ''url'') [] = Return u \<Longrightarrow>
   or_text (member y ''description'') [] = Return d \<Longrightarrow>
   date_text (member y ''date'') = Return dt \<Longrightarrow>
   markdown_item i y = Return (show_nat (i + 1) @ ''. **'' @ t @ ''**''
            @ [CHR 0x0A] @ ''   '' @ u
            @ [CHR 0x0A] @ ''   '' @ d
            @ [CHR 0x0A] @ ''   '' @ dt @ [CHR 0x0A])"
  by (simp add: markdown_item_def read_prop_nonnull)

lemma text_item_eq:
  "y \<noteq> JNull \<Longrightarrow> or_text (member y ''title'') ''Untitled'' = Return t \<Longrightarrow>
   or_text (member y ''url'') [] = Return u \<Longrightarrow>
   or_text (member y ''description'') [] = Return d \<Longrightarrow>
   date_text (member y ''date'') = Return dt \<Longrightarrow>
   text_item i y = Return (show_nat (i + 1) @ ''. '' @ t
            @ [CHR 0x0A] @ ''   '' @ u
            @ [CHR 0x0A] @ ''   '' @ d
            @ [CHR 0x0A] @ ''   '' @ dt)"
  by (simp add: text_item_def read_prop_nonnull)

lemma html_item_eq:
  "y \<noteq> JNull \<Longrightarrow> or_text (member y ''title'') ''Untitled'' = Return t \<Longrightarrow>
   or_text (member y ''url'') [] = Return u \<Longrightarrow>
   or_text (member y ''description'') [] = Return d \<Longrightarrow>
   date_text (member y ''date'') = Return dt \<Longrightarrow>
   html_item y = Return (''<li><strong>'' @ t @ ''</strong><br>''
            @ [CHR 0x0A] @ ''           '' @ ''<a href='' @ [CHR 0x22] @ u @ [CHR 0x22] @ ''>'' @ u @ ''</a><br>''
            @ [CHR 0x0A] @ ''           '' @ d @ ''<br>''
            @ [CHR 0x0A] @ ''           '' @ dt @ ''</li>'')"
  by (simp add: html_item_def read_prop_nonnull)

lemma respond_rendered:
  assumes fields: "\<forall>i < length xs. xs ! i \<noteq> JNull
        \<and> or_text (member (xs ! i) ''title'') ''Untitled'' = Return (titles i)
        \<and> or_text (member (xs ! i) ''url'') [] = Return (urls i)
        \<and> or_text (member (xs ! i) ''description'') [] = Return (descriptions i)
        \<and> date_text (member (xs ! i) ''date'') = Return (dates i)"
  shows "respond fmt xs =
     Return \<lparr>content = [TextContent (JStr
      (if fmt = Fmt_markdown then
         join [CHR 0x0A] (map (\<lambda>i. show_nat (i + 1) @ ''. **'' @ titles i @ ''**''
            @ [CHR 0x0A] @ ''   '' @ urls i
            @ [CHR 0x0A] @ ''   '' @ descriptions i
            @ [CHR 0x0A] @ ''   '' @ dates i @ [CHR 0x0A]) [0..<length xs])
       else if fmt = Fmt_html then
         ''<ol>'' @ join [] (map (\<lambda>i. ''<li><strong>'' @ titles i @ ''</strong><br>''
            @ [CHR 0x0A] @ ''           '' @ ''<a href='' @ [CHR 0x22] @ urls i @ [CHR 0x22] @ ''>'' @ urls i @ ''</a><br>''
            @ [CHR 0x0A] @ ''           '' @ descriptions i @ ''<br>''
            @ [CHR 0x0A] @ ''           '' @ dates i @ ''</li>'') [0..<length xs]) @ ''</ol>''
       else
         join [CHR 0x0A, CHR 0x0A] (map (\<lambda>i. show_nat (i + 1) @ ''. '' @ titles i
            @ [CHR 0x0A] @ ''   '' @ urls i
            @ [CHR 0x0A] @ ''   '' @ descriptions i
            @ [CHR 0x0A] @ ''   '' @ dates i) [0..<length xs])))],
       isError = None\<rparr>"
proof -
  from fields have "\<forall>x \<in> set xs. \<exists>y. strip_usage x = Return y"
    using strip_usage_nonnull by (metis in_set_conv_nth)
  then obtain kept where kept: "traverse strip_usage xs = Return kept"
    using traverse_total by blast
  then have klen: "length kept = length xs"
    and kpt: "\<forall>i < length xs. strip_usage (xs ! i) = Return (kept ! i)"
    by (simp_all add: traverse_Return_iff)
  have same: "kept ! i \<noteq> JNull \<and> (\<forall>k. k \<noteq> ''usage'' \<longrightarrow> member (kept ! i) k = member (xs ! i) k)"
    if "i < length xs" for i
  proof -
    from that fields have "xs ! i \<noteq> JNull" by simp
    then obtain y where "strip_usage (xs ! i) = Return y" "y \<noteq> JNull"
      "\<forall>k. k \<noteq> ''usage'' \<longrightarrow> member y k = member (xs ! i) k"
      using strip_usage_nonnull by blast
    with kpt that show ?thesis by simp
  qed
  have md: "markdown_item i (kept ! i) = Return (show_nat (i + 1) @ ''. **'' @ titles i @ ''**''
            @ [CHR 0x0A] @ ''   '' @ urls i
            @ [CHR 0x0A] @ ''   '' @ descriptions i
            @ [CHR 0x0A] @ ''   '' @ dates i @ [CHR 0x0A])"
    if "i < length xs" for i
    using that fields same [OF that] by (intro markdown_item_eq) auto
  have tx: "text_item i (kept ! i) = Return (show_nat (i + 1) @ ''. '' @ titles i
            @ [CHR 0x0A] @ ''   '' @ urls i
            @ [CHR 0x0A] @ ''   '' @ descriptions i
            @ [CHR 0x0A] @ ''   '' @ dates i)"
    if "i < length xs" for i
    using that fields same [OF that] by (intro text_item_eq) auto
  have ht: "html_item (kept ! i) = Return (''<li><strong>'' @ titles i @ ''</strong><br>''
            @ [CHR 0x0A] @ ''           '' @ ''<a href='' @ [CHR 0x22] @ urls i @ [CHR 0x22] @ ''>'' @ urls i @ ''</a><br>''
            @ [CHR 0x0A] @ ''           '' @ descriptions i @ ''<br>''
            @ [CHR 0x0A] @ ''           '' @ dates i @ ''</li>'')"
    if "i < length xs" for i
    using that fields same [OF that] by (intro html_item_eq) auto
  have mds: "traverse (\<lambda>(index, result). markdown_item index result) (indexed kept)
        = Return (map (\<lambda>i. show_nat (i + 1) @ ''. **'' @ titles i @ ''**''
            @ [CHR 0x0A] @ ''   '' @ urls i
            @ [CHR 0x0A] @ ''   '' @ descriptions i
            @ [CHR 0x0A] @ ''   '' @ dates i @ [CHR 0x0A]) [0..<length xs])"
    using md klen by (simp add: traverse_Return_iff length_indexed indexed_nth)
  have txs: "traverse (\<lambda>(index, result). text_item index result) (indexed kept)
        = Return (map (\<lambda>i. show_nat (i + 1) @ ''. '' @ titles i
            @ [CHR 0x0A] @ ''   '' @ urls i
            @ [CHR 0x0A] @ ''   '' @ descriptions i
            @ [CHR 0x0A] @ ''   '' @ dates i) [0..<length xs])"
    using tx klen by (simp add: traverse_Return_iff length_indexed indexed_nth)
  have hts: "traverse html_item kept
        = Return (map (\<lambda>i. ''<li><strong>'' @ titles i @ ''</strong><br>''
            @ [CHR 0x0A] @ ''           '' @ ''<a href='' @ [CHR 0x22] @ urls i @ [CHR 0x22] @ ''>'' @ urls i @ ''</a><br>''
            @ [CHR 0x0A] @ ''           '' @ descriptions i @ ''<br>''
            @ [CHR 0x0A] @ ''           '' @ dates i @ ''</li>'') [0..<length xs])"
    using ht klen by (simp add: traverse_Return_iff)
  show ?thesis
    by (simp add: respond_def kept formattedOutput_def mds txs hts)
qed

lemma show_nat_1: "show_nat (Suc 0) = ''1''"
  by (simp add: show_nat.simps)

lemma show_nat_2: "show_nat (Suc (Suc 0)) = ''2''"
  by (simp add: show_nat.simps)

section \<open>The Authorization header\<close>

text \<open>
  Claim C6. The requests of both tools: when \<open>JINA_API_KEY\<close> is unset no header of the
  request is named \<open>Authorization\<close>; when it is set to a non-empty value \<open>v\<close> the request has
  exactly one header of that name, and its value is \<open>Bearer v\<close>.
\<close>

theorem authorization_header:
  "(env ''JINA_API_KEY'' = None \<longrightarrow>
      filter (\<lambda>p. fst p = ''Authorization'') (req_headers (reader_request env r)) = []
      \<and> filter (\<lambda>p. fst p = ''Authorization'') (req_headers (search_request env s)) = [])
   \<and> (env ''JINA_API_KEY'' = Some v \<and> v \<noteq> [] \<longrightarrow>
      filter (\<lambda>p. fst p = ''Authorization'') (req_headers (reader_request env r))
        = [(''Authorization'', HStr (''Bearer '' @ v))]
      \<and> filter (\<lambda>p. fst p = ''Authorization'') (req_headers (search_request env s))
        = [(''Authorization'', HStr (''Bearer '' @ v))])"
  by (auto simp: reader_request_def search_request_def reader_headers_eq search_headers_eq
        reader_literal_def getJinaApiKey_unset getJinaApiKey_set split: option.splits)

theorem authorization_header_witness:
  "filter (\<lambda>p. fst p = ''Authorization'')
     (req_headers (reader_request Map.empty
        \<lparr>url = ''https://example.com'', format = Default, withLinks = False,
         withImages = False, useReaderLM = False\<rparr>)) = []
   \<and> filter (\<lambda>p. fst p = ''Authorization'')
     (req_headers (search_request [''JINA_API_KEY'' \<mapsto> ''jina_abc'']
        \<lparr>query = ''rust'', count = 5, returnFormat = Fmt_markdown,
         siteFilter = Some ''github.com''\<rparr>))
     = [(''Authorization'', HStr ''Bearer jina_abc'')]"
  using authorization_header [of Map.empty
          "\<lparr>url = ''https://example.com'', format = Default, withLinks = False,
            withImages = False, useReaderLM = False\<rparr>" _ "[]"]
        authorization_header [of "[''JINA_API_KEY'' \<mapsto> ''jina_abc'']" _
          "\<lparr>query = ''rust'', count = 5, returnFormat = Fmt_markdown,
            siteFilter = Some ''github.com''\<rparr>" "''jina_abc''"]
  by simp

text \<open>
  Claim C9. With \<open>JINA_API_KEY\<close> set to the empty string the resolver returns null, and
  the requests of both tools are the ones built with the entry absent: no header is
  named \<open>Authorization\<close>, and both handlers return what they return with the entry absent.
\<close>

theorem empty_key_is_absent:
  "getJinaApiKey (env(''JINA_API_KEY'' \<mapsto> [])) = None
   \<and> reader_request (env(''JINA_API_KEY'' \<mapsto> [])) r
       = reader_request (env(''JINA_API_KEY'' := None)) r
   \<and> search_request (env(''JINA_API_KEY'' \<mapsto> [])) s
       = search_request (env(''JINA_API_KEY'' := None)) s
   \<and> filter (\<lambda>p. fst p = ''Authorization'')
        (req_headers (reader_request (env(''JINA_API_KEY'' \<mapsto> [])) r)) = []
   \<and> filter (\<lambda>p. fst p = ''Authorization'')
        (req_headers (search_request (env(''JINA_API_KEY'' \<mapsto> [])) s)) = []
   \<and> jina_reader (env(''JINA_API_KEY'' \<mapsto> [])) fetch r
       = jina_reader (env(''JINA_API_KEY'' := None)) fetch r
   \<and> jina_search (env(''JINA_API_KEY'' \<mapsto> [])) fetch JSON_parse s
       = jina_search (env(''JINA_API_KEY'' := None)) fetch JSON_parse s"
proof -
  have key: "getJinaApiKey (env(''JINA_API_KEY'' \<mapsto> [])) = None"
    and gone: "getJinaApiKey (env(''JINA_API_KEY'' := None)) = None"
    by (simp_all add: getJinaApiKey_def)
  have reader: "reader_request (env(''JINA_API_KEY'' \<mapsto> [])) r
       = reader_request (env(''JINA_API_KEY'' := None)) r"
    by (simp add: reader_request_def reader_headers_eq key gone)
  have search: "search_request (env(''JINA_API_KEY'' \<mapsto> [])) s
       = search_request (env(''JINA_API_KEY'' := None)) s"
    by (simp add: search_request_def search_headers_eq key gone)
  have no_reader: "filter (\<lambda>p. fst p = ''Authorization'')
        (req_headers (reader_request (env(''JINA_API_KEY'' \<mapsto> [])) r)) = []"
    by (simp add: reader_request_def reader_headers_eq key reader_literal_def)
  have no_search: "filter (\<lambda>p. fst p = ''Authorization'')
        (req_headers (search_request (env(''JINA_API_KEY'' \<mapsto> [])) s)) = []"
    by (simp add: search_request_def search_headers_eq key split: option.splits)
  have run_reader: "jina_reader (env(''JINA_API_KEY'' \<mapsto> [])) fetch r
       = jina_reader (env(''JINA_API_KEY'' := None)) fetch r"
    by (simp add: jina_reader_def jina_reader_try_def reader)
  have run_search: "jina_search (env(''JINA_API_KEY'' \<mapsto> [])) fetch JSON_parse s
       = jina_search (env(''JINA_API_KEY'' := None)) fetch JSON_parse s"
    by (simp add: jina_search_def jina_search_try_def search)
  from key reader search no_reader no_search run_reader run_search show ?thesis
    by blast
qed

text \<open>
  Claim C7. \<open>createHeaders\<close> called on a base object of the heap returns a reference to a
  new object and leaves every object that was on the heap, the base object among them,
  as it was. Without a credential the new object has the entries of the base object; with
  a credential \<open>k\<close> it has them with \<open>Authorization\<close> set to \<open>Bearer k\<close>: appended after them
  when the base object has no such entry (an entry of that name would be overwritten), and
  every entry of another name is as in the base object. Called without an argument it
  leaves the heap as it was and allocates the object that holds at most that entry.
\<close>

theorem createHeaders_frame:
  assumes "baseHeaders < length h"
    and "createHeaders env (Some baseHeaders) h = (headers, h')"
  shows "headers \<noteq> baseHeaders
    \<and> headers = length h \<and> length h' = Suc (length h)
    \<and> (\<forall>r < length h. h' ! r = h ! r)
    \<and> h' ! baseHeaders = h ! baseHeaders
    \<and> (getJinaApiKey env = None \<longrightarrow> h' ! headers = h ! baseHeaders)
    \<and> (\<forall>k. getJinaApiKey env = Some k \<longrightarrow>
          map_of (h' ! headers)
            = (map_of (h ! baseHeaders))(''Authorization'' \<mapsto> HStr (''Bearer '' @ k))
          \<and> (''Authorization'' \<notin> fst ` set (h ! baseHeaders) \<longrightarrow>
                h' ! headers = h ! baseHeaders @ [(''Authorization'', HStr (''Bearer '' @ k))])
          \<and> (\<forall>name. name \<noteq> ''Authorization'' \<longrightarrow>
                filter (\<lambda>p. fst p = name) (h' ! headers)
                  = filter (\<lambda>p. fst p = name) (h ! baseHeaders)))
    \<and> createHeaders env None h
        = (length h,
           h @ [case getJinaApiKey env of
                  None \<Rightarrow> []
                | Some k \<Rightarrow> [(''Authorization'', HStr (''Bearer '' @ k))]])"
  using assms
  by (auto simp: createHeaders_Some createHeaders_None nth_append map_of_assign
        filter_assign_other assign_fresh split: option.splits)

theorem createHeaders_frame_witness:
  "createHeaders [''JINA_API_KEY'' \<mapsto> ''jina_abc''] (Some 0)
     ([(''Accept'', HStr ''application/json'')] # [])
     = (1, [(''Accept'', HStr ''application/json'')]
           # [(''Accept'', HStr ''application/json''), (''Authorization'', HStr ''Bearer jina_abc'')]
           # [])
   \<and> ([(''Accept'', HStr ''application/json'')]
        # [(''Accept'', HStr ''application/json''), (''Authorization'', HStr ''Bearer jina_abc'')]
        # []) ! 0
     = ([(''Accept'', HStr ''application/json'')] # []) ! 0"
proof -
  let ?h = "[(''Accept'', HStr ''application/json'')] # []"
  let ?h' = "[(''Accept'', HStr ''application/json'')]
           # [(''Accept'', HStr ''application/json''), (''Authorization'', HStr ''Bearer jina_abc'')]
           # []"
  have base: "(0::nat) < length ?h"
    by simp
  have call: "createHeaders [''JINA_API_KEY'' \<mapsto> ''jina_abc''] (Some 0) ?h = (1, ?h')"
    by (simp add: createHeaders_def alloc_def getJinaApiKey_def)
  from createHeaders_frame [OF base call] call show ?thesis
    by simp
qed

section \<open>The jina\_reader tool: request headers and result text\<close>

text \<open>
  Claim C3. In the headers the reader hands to \<open>fetch\<close> the name \<open>X-Respond-With\<close> is always
  present: with \<open>useReaderLM\<close> true its value is the string \<open>readerlm-v2\<close>, with \<open>useReaderLM\<close>
  false its value is \<open>undefined\<close>. The second part shows the whole header object of a call
  with \<open>useReaderLM\<close> false and no credential: the entry is there, so the header is not
  omitted as the claim has it.
\<close>

theorem respond_with_header:
  "map_of (req_headers (reader_request env a)) ''X-Respond-With''
     = Some (if useReaderLM a then HStr ''readerlm-v2'' else HUndefined)
   \<and> req_headers (reader_request Map.empty
        \<lparr>url = ''https://example.com'', format = Default, withLinks = False,
         withImages = False, useReaderLM = False\<rparr>)
     = [(''Content-Type'', HStr ''application/json''),
        (''Accept'', HStr ''application/json''),
        (''X-With-Links-Summary'', HStr ''false''),
        (''X-With-Images-Summary'', HStr ''false''),
        (''X-Return-Format'', HStr ''default''),
        (''X-Respond-With'', HUndefined),
        (''X-With-Generated-Alt'', HStr ''true''),
        (''X-With-Iframe'', HStr ''true''),
        (''X-With-Shadow-Dom'', HStr ''true'')]"
  by (simp add: reader_request_def reader_headers_eq reader_literal_def getJinaApiKey_def
        toLowerCase_def split: option.splits)

text \<open>
  Claim C4, as stated, fails: a 2xx body \<open>{"data":{"content":""}}\<close> has the field, and the
  returned text is the pretty-printed body, not the field; and the body \<open>null\<close> gives an
  error envelope, since reading \<open>data.data\<close> throws.
\<close>

theorem reader_text_counterexample:
  \<open>jina_reader Map.empty
     (stub_fetch (Return \<lparr>status = 200, body_text = Return ''{"data":{"content":""}}'',
        body_json = Return (JObj [(''data'', JObj [(''content'', JStr [])])])\<rparr>))
     \<lparr>url = ''https://example.com'', format = Default, withLinks = False,
      withImages = False, useReaderLM = False\<rparr>
   = \<lparr>content = [TextContent (JStr
        ''{\<newline>  "data": {\<newline>    "content": ""\<newline>  }\<newline>}'')],
      isError = None\<rparr>
   \<and> jina_reader Map.empty
     (stub_fetch (Return \<lparr>status = 200, body_text = Return ''null'', body_json = Return JNull\<rparr>))
     \<lparr>url = ''https://example.com'', format = Default, withLinks = False,
      withImages = False, useReaderLM = False\<rparr>
   = \<lparr>content = [TextContent (JStr
        (''Error: Cannot read properties of null (reading '' @ [CHR 0x27] @ ''data'' @ [CHR 0x27] @ '')''))],
      isError = Some True\<rparr>\<close>
  by (simp add: jina_reader_def jina_reader_try_def stub_fetch_def ok_def catch_def
        read_prop_def error_envelope_def QuoteJSONString_def quote_char_def)

text \<open>
  Claim C4, amended. For a 2xx response whose parsed body is not \<open>null\<close>: the returned text
  is the nested \<open>data.content\<close> value whenever it is present and truthy (not \<open>null\<close>,
  \<open>false\<close>, \<open>0\<close> or the empty string), and otherwise the whole parsed body pretty-printed
  with two spaces of indentation (as \<open>JSON.stringify\<close> prints it: a number that is not
  finite prints as \<open>null\<close>). For an object whose \<open>data\<close> is an object, the nested value is
  that object's \<open>content\<close> entry.
\<close>

theorem reader_success_text:
  assumes "fetch (reader_request env a) = Return r" and "ok r"
    and "body_json r = Return data" and "data \<noteq> JNull"
  shows "(\<forall>c. optional_content (member data ''data'') = Some c \<and> truthy c \<longrightarrow>
            jina_reader env fetch a = \<lparr>content = [TextContent c], isError = None\<rparr>)
    \<and> (optional_content (member data ''data'') = None
          \<or> (\<exists>c. optional_content (member data ''data'') = Some c \<and> \<not> truthy c) \<longrightarrow>
            jina_reader env fetch a
              = \<lparr>content = [TextContent (JStr (stringify ''  '' [] data))], isError = None\<rparr>)
    \<and> (\<forall>kvs kvs'. data = JObj kvs \<and> map_of kvs ''data'' = Some (JObj kvs') \<longrightarrow>
          optional_content (member data ''data'') = map_of kvs' ''content'')"
  using assms jina_reader_ok [of "fetch" env a r data]
  by (auto simp: read_prop_nonnull catch_Return)

theorem reader_success_text_witness:
  \<open>jina_reader Map.empty
     (stub_fetch (Return \<lparr>status = 200, body_text = Return ''{"data":{"content":"Hello"}}'',
        body_json = Return (JObj [(''data'', JObj [(''content'', JStr ''Hello'')])])\<rparr>))
     \<lparr>url = ''https://example.com'', format = Default, withLinks = False,
      withImages = False, useReaderLM = False\<rparr>
   = \<lparr>content = [TextContent (JStr ''Hello'')], isError = None\<rparr>
   \<and> jina_reader Map.empty
     (stub_fetch (Return \<lparr>status = 200, body_text = Return ''{"code":200}'',
        body_json = Return (JObj [(''code'', JNum ''200'')])\<rparr>))
     \<lparr>url = ''https://example.com'', format = Default, withLinks = False,
      withImages = False, useReaderLM = False\<rparr>
   = \<lparr>content = [TextContent (JStr ''{\<newline>  "code": 200\<newline>}'')], isError = None\<rparr>
   \<and> jina_reader Map.empty
     (stub_fetch (Return \<lparr>status = 200, body_text = Return ''{"big":1e400}'',
        body_json = Return (JObj [(''big'', JNum ''Infinity'')])\<rparr>))
     \<lparr>url = ''https://example.com'', format = Default, withLinks = False,
      withImages = False, useReaderLM = False\<rparr>
   = \<lparr>content = [TextContent (JStr ''{\<newline>  "big": null\<newline>}'')], isError = None\<rparr>\<close>
proof -
  let ?a = "\<lparr>url = ''https://example.com'', format = Default, withLinks = False,
      withImages = False, useReaderLM = False\<rparr>"
  let ?hello = "JObj [(''data'', JObj [(''content'', JStr ''Hello'')])]"
  let ?r1 = \<open>\<lparr>status = 200, body_text = Return ''{"data":{"content":"Hello"}}'',
        body_json = Return ?hello\<rparr>\<close>
  let ?other = "JObj [(''code'', JNum ''200'')]"
  let ?r2 = \<open>\<lparr>status = 200, body_text = Return ''{"code":200}'', body_json = Return ?other\<rparr>\<close>
  let ?big = "JObj [(''big'', JNum ''Infinity'')]"
  let ?r3 = \<open>\<lparr>status = 200, body_text = Return ''{"big":1e400}'', body_json = Return ?big\<rparr>\<close>
  have "jina_reader Map.empty (stub_fetch (Return ?r1)) ?a
          = \<lparr>content = [TextContent (JStr ''Hello'')], isError = None\<rparr>"
    using reader_success_text [of "stub_fetch (Return ?r1)" Map.empty ?a ?r1 ?hello]
    by (simp add: stub_fetch_def ok_def)
  moreover have "jina_reader Map.empty (stub_fetch (Return ?r2)) ?a
          = \<lparr>content = [TextContent (JStr (stringify ''  '' [] ?other))], isError = None\<rparr>"
    using reader_success_text [of "stub_fetch (Return ?r2)" Map.empty ?a ?r2 ?other]
    by (simp add: stub_fetch_def ok_def)
  moreover have "jina_reader Map.empty (stub_fetch (Return ?r3)) ?a
          = \<lparr>content = [TextContent (JStr (stringify ''  '' [] ?big))], isError = None\<rparr>"
    using reader_success_text [of "stub_fetch (Return ?r3)" Map.empty ?a ?r3 ?big]
    by (simp add: stub_fetch_def ok_def)
  ultimately show ?thesis
    by (simp add: QuoteJSONString_def quote_char_def)
qed

section \<open>Failures become error envelopes\<close>



section \<open>The jina\_search tool: truncation\<close>

text \<open>
  Claim C5, as stated, fails: with \<open>count\<close> 2 and three upstream items of which the first
  is \<open>null\<close>, the handler formats nothing and returns an error envelope, since reading
  \<open>result.usage\<close> throws; and so it does when a kept item has a field whose conversion to
  a string throws (an object with an own \<open>toString\<close> entry).
\<close>

theorem truncation_counterexample:
  \<open>jina_search Map.empty
     (stub_fetch (Return \<lparr>status = 200,
        body_text = Return ''{"data":[null,{"title":"B"},{"title":"C"}]}'',
        body_json = Return (JObj [(''data'', JArr [JNull,
          JObj [(''title'', JStr ''B'')],
          JObj [(''title'', JStr ''C'')]])])\<rparr>))
     (stub_parse (Return (JObj [(''data'', JArr [JNull,
          JObj [(''title'', JStr ''B'')],
          JObj [(''title'', JStr ''C'')]])])))
     \<lparr>query = ''rust'', count = 2, returnFormat = Fmt_markdown, siteFilter = None\<rparr>
   = \<lparr>content = [TextContent (JStr (''Error: Cannot read properties of null (reading '' @ [CHR 0x27] @ ''usage'' @ [CHR 0x27] @ '')''))], isError = Some True\<rparr>
   \<and> jina_search Map.empty
     (stub_fetch (Return \<lparr>status = 200,
        body_text = Return ''{"data":[{"title":"A","date":{"toString":null}},{"title":"B"},{"title":"C"}]}'',
        body_json = Return (JObj [(''data'', JArr [JObj [(''title'', JStr ''A''), (''date'', JObj [(''toString'', JNull)])],
          JObj [(''title'', JStr ''B'')],
          JObj [(''title'', JStr ''C'')]])])\<rparr>))
     (stub_parse (Return (JObj [(''data'', JArr [JObj [(''title'', JStr ''A''), (''date'', JObj [(''toString'', JNull)])],
          JObj [(''title'', JStr ''B'')],
          JObj [(''title'', JStr ''C'')]])])))
     \<lparr>query = ''rust'', count = 2, returnFormat = Fmt_markdown, siteFilter = None\<rparr>
   = \<lparr>content = [TextContent (JStr ''Error: Cannot convert object to primitive value'')], isError = Some True\<rparr>\<close>
  by (simp add: jina_search_def jina_search_try_def stub_fetch_def stub_parse_def ok_def
        search_results_def read_prop_def truncate_results_def respond_def strip_usage_def
        formattedOutput_def indexed_def markdown_item_def or_text_def catch_def
        error_envelope_def upt_rec numeral_2_eq_2)

text \<open>
  Claim C5, amended. For a 2xx response whose parsed body holds the result list
  \<open>results\<close>, a positive \<open>count\<close> and a list longer than \<open>count\<close>, let \<open>k\<close> be the integer
  \<open>slice\<close> cuts \<open>count\<close> down to, which is \<open>count\<close> itself when \<open>count\<close> is a whole number.
  When none of the first \<open>k\<close> items is \<open>null\<close> and their titles, urls, descriptions and
  dates convert to strings, the returned text consists of exactly \<open>k\<close> entries, the \<open>i\<close>-th
  written from the fields of the \<open>i\<close>-th upstream item, put together as the renderer does.
\<close>

theorem truncation_to_count:
  assumes "fetch (search_request env a) = Return r" and "ok r"
    and "body_text r = Return b" and "JSON_parse b = Return data"
    and "member data ''data'' = Some (JArr results)"
    and "0 < count a" and "count a < of_nat (length results)"
    and "k = nat \<lfloor>count a\<rfloor>"
    and fields: "\<forall>i < k. results ! i \<noteq> JNull
        \<and> or_text (member (results ! i) ''title'') ''Untitled'' = Return (titles i)
        \<and> or_text (member (results ! i) ''url'') [] = Return (urls i)
        \<and> or_text (member (results ! i) ''description'') [] = Return (descriptions i)
        \<and> date_text (member (results ! i) ''date'') = Return (dates i)"
  shows "k < length results \<and> (\<forall>n. count a = of_nat n \<longrightarrow> k = n)
    \<and> jina_search env fetch JSON_parse a =
        \<lparr>content = [TextContent (JStr
      (if returnFormat a = Fmt_markdown then
         join [CHR 0x0A] (map (\<lambda>i. show_nat (i + 1) @ ''. **'' @ titles i @ ''**''
            @ [CHR 0x0A] @ ''   '' @ urls i
            @ [CHR 0x0A] @ ''   '' @ descriptions i
            @ [CHR 0x0A] @ ''   '' @ dates i @ [CHR 0x0A]) [0..<k])
       else if returnFormat a = Fmt_html then
         ''<ol>'' @ join [] (map (\<lambda>i. ''<li><strong>'' @ titles i @ ''</strong><br>''
            @ [CHR 0x0A] @ ''           '' @ ''<a href='' @ [CHR 0x22] @ urls i @ [CHR 0x22] @ ''>'' @ urls i @ ''</a><br>''
            @ [CHR 0x0A] @ ''           '' @ descriptions i @ ''<br>''
            @ [CHR 0x0A] @ ''           '' @ dates i @ ''</li>'') [0..<k]) @ ''</ol>''
       else
         join [CHR 0x0A, CHR 0x0A] (map (\<lambda>i. show_nat (i + 1) @ ''. '' @ titles i
            @ [CHR 0x0A] @ ''   '' @ urls i
            @ [CHR 0x0A] @ ''   '' @ descriptions i
            @ [CHR 0x0A] @ ''   '' @ dates i) [0..<k])))],
         isError = None\<rparr>"
proof -
  have cut: "truncate_results (count a) results = take k results"
    using assms(6-8) by (simp add: truncate_results_def)
  have "of_int \<lfloor>count a\<rfloor> < (of_nat (length results) :: rat)"
    using assms(7) of_int_floor_le [of "count a"] by linarith
  then have "\<lfloor>count a\<rfloor> < int (length results)"
    by (metis of_int_less_iff of_int_of_nat_eq)
  moreover have "0 \<le> \<lfloor>count a\<rfloor>"
    using assms(6) by simp
  ultimately have len: "k < length results"
    using assms(8) by (simp add: nat_less_iff)
  then have klen: "length (take k results) = k"
    by simp
  have whole: "\<forall>n. count a = of_nat n \<longrightarrow> k = n"
    using assms(8) by auto
  have run: "jina_search env fetch JSON_parse a = catch (respond (returnFormat a) (take k results))"
    using jina_search_ok [of "fetch" env a r b JSON_parse data] assms(1-5)
    by (simp add: search_results_array cut)
  have "\<forall>i < length (take k results). take k results ! i \<noteq> JNull
        \<and> or_text (member (take k results ! i) ''title'') ''Untitled'' = Return (titles i)
        \<and> or_text (member (take k results ! i) ''url'') [] = Return (urls i)
        \<and> or_text (member (take k results ! i) ''description'') [] = Return (descriptions i)
        \<and> date_text (member (take k results ! i) ''date'') = Return (dates i)"
    using fields klen by simp
  from respond_rendered [OF this, of "returnFormat a"] klen run
  have "jina_search env fetch JSON_parse a =
        \<lparr>content = [TextContent (JStr
      (if returnFormat a = Fmt_markdown then
         join [CHR 0x0A] (map (\<lambda>i. show_nat (i + 1) @ ''. **'' @ titles i @ ''**''
            @ [CHR 0x0A] @ ''   '' @ urls i
            @ [CHR 0x0A] @ ''   '' @ descriptions i
            @ [CHR 0x0A] @ ''   '' @ dates i @ [CHR 0x0A]) [0..<k])
       else if returnFormat a = Fmt_html then
         ''<ol>'' @ join [] (map (\<lambda>i. ''<li><strong>'' @ titles i @ ''</strong><br>''
            @ [CHR 0x0A] @ ''           '' @ ''<a href='' @ [CHR 0x22] @ urls i @ [CHR 0x22] @ ''>'' @ urls i @ ''</a><br>''
            @ [CHR 0x0A] @ ''           '' @ descriptions i @ ''<br>''
            @ [CHR 0x0A] @ ''           '' @ dates i @ ''</li>'') [0..<k]) @ ''</ol>''
       else
         join [CHR 0x0A, CHR 0x0A] (map (\<lambda>i. show_nat (i + 1) @ ''. '' @ titles i
            @ [CHR 0x0A] @ ''   '' @ urls i
            @ [CHR 0x0A] @ ''   '' @ descriptions i
            @ [CHR 0x0A] @ ''   '' @ dates i) [0..<k])))],
         isError = None\<rparr>"
    by (simp add: catch_Return)
  with len whole show ?thesis
    by blast
qed

theorem truncation_to_count_witness:
  \<open>jina_search Map.empty
     (stub_fetch (Return \<lparr>status = 200,
        body_text = Return ''{"data":[{"title":"A","url":"https://a.example","description":"first","date":"2024-01-01","usage":{"tokens":7}},{"title":"B"},{"title":"C"},{"title":"D"},{"title":"E"}]}'',
        body_json = Return (JObj [(''data'', JArr [JObj [(''title'', JStr ''A''), (''url'', JStr ''https://a.example''),
                (''description'', JStr ''first''), (''date'', JStr ''2024-01-01''),
                (''usage'', JObj [(''tokens'', JNum ''7'')])],
          JObj [(''title'', JStr ''B'')],
          JObj [(''title'', JStr ''C'')],
          JObj [(''title'', JStr ''D'')],
          JObj [(''title'', JStr ''E'')]])])\<rparr>))
     (stub_parse (Return (JObj [(''data'', JArr [JObj [(''title'', JStr ''A''), (''url'', JStr ''https://a.example''),
                (''description'', JStr ''first''), (''date'', JStr ''2024-01-01''),
                (''usage'', JObj [(''tokens'', JNum ''7'')])],
          JObj [(''title'', JStr ''B'')],
          JObj [(''title'', JStr ''C'')],
          JObj [(''title'', JStr ''D'')],
          JObj [(''title'', JStr ''E'')]])])))
     \<lparr>query = ''rust'', count = 2, returnFormat = Fmt_markdown, siteFilter = None\<rparr>
   = \<lparr>content = [TextContent (JStr ''1. **A**\<newline>   https://a.example\<newline>   first\<newline>   Date: 2024-01-01\<newline>\<newline>2. **B**\<newline>   \<newline>   \<newline>   \<newline>'')], isError = None\<rparr>
   \<and> jina_search Map.empty
     (stub_fetch (Return \<lparr>status = 200,
        body_text = Return ''{"data":[{"title":"A","url":"https://a.example","description":"first","date":"2024-01-01","usage":{"tokens":7}},{"title":"B"},{"title":"C"},{"title":"D"},{"title":"E"}]}'',
        body_json = Return (JObj [(''data'', JArr [JObj [(''title'', JStr ''A''), (''url'', JStr ''https://a.example''),
                (''description'', JStr ''first''), (''date'', JStr ''2024-01-01''),
                (''usage'', JObj [(''tokens'', JNum ''7'')])],
          JObj [(''title'', JStr ''B'')],
          JObj [(''title'', JStr ''C'')],
          JObj [(''title'', JStr ''D'')],
          JObj [(''title'', JStr ''E'')]])])\<rparr>))
     (stub_parse (Return (JObj [(''data'', JArr [JObj [(''title'', JStr ''A''), (''url'', JStr ''https://a.example''),
                (''description'', JStr ''first''), (''date'', JStr ''2024-01-01''),
                (''usage'', JObj [(''tokens'', JNum ''7'')])],
          JObj [(''title'', JStr ''B'')],
          JObj [(''title'', JStr ''C'')],
          JObj [(''title'', JStr ''D'')],
          JObj [(''title'', JStr ''E'')]])])))
     \<lparr>query = ''rust'', count = 2, returnFormat = Fmt_html, siteFilter = None\<rparr>
   = \<lparr>content = [TextContent (JStr ''<ol><li><strong>A</strong><br>\<newline>           <a href="https://a.example">https://a.example</a><br>\<newline>           first<br>\<newline>           Date: 2024-01-01</li><li><strong>B</strong><br>\<newline>           <a href=""></a><br>\<newline>           <br>\<newline>           </li></ol>'')], isError = None\<rparr>
   \<and> jina_search Map.empty
     (stub_fetch (Return \<lparr>status = 200,
        body_text = Return ''{"data":[{"title":"A","url":"https://a.example","description":"first","date":"2024-01-01","usage":{"tokens":7}},{"title":"B"},{"title":"C"},{"title":"D"},{"title":"E"}]}'',
        body_json = Return (JObj [(''data'', JArr [JObj [(''title'', JStr ''A''), (''url'', JStr ''https://a.example''),
                (''description'', JStr ''first''), (''date'', JStr ''2024-01-01''),
                (''usage'', JObj [(''tokens'', JNum ''7'')])],
          JObj [(''title'', JStr ''B'')],
          JObj [(''title'', JStr ''C'')],
          JObj [(''title'', JStr ''D'')],
          JObj [(''title'', JStr ''E'')]])])\<rparr>))
     (stub_parse (Return (JObj [(''data'', JArr [JObj [(''title'', JStr ''A''), (''url'', JStr ''https://a.example''),
                (''description'', JStr ''first''), (''date'', JStr ''2024-01-01''),
                (''usage'', JObj [(''tokens'', JNum ''7'')])],
          JObj [(''title'', JStr ''B'')],
          JObj [(''title'', JStr ''C'')],
          JObj [(''title'', JStr ''D'')],
          JObj [(''title'', JStr ''E'')]])])))
     \<lparr>query = ''rust'', count = 2, returnFormat = Fmt_text, siteFilter = None\<rparr>
   = \<lparr>content = [TextContent (JStr ''1. A\<newline>   https://a.example\<newline>   first\<newline>   Date: 2024-01-01\<newline>\<newline>2. B\<newline>   \<newline>   \<newline>   '')], isError = None\<rparr>\<close>
  using truncation_to_count [where fetch = "stub_fetch (Return \<lparr>status = 200,
            body_text = Return ''{\"data\":[{\"title\":\"A\",\"url\":\"https://a.example\",\"description\":\"first\",\"date\":\"2024-01-01\",\"usage\":{\"tokens\":7}},{\"title\":\"B\"},{\"title\":\"C\"},{\"title\":\"D\"},{\"title\":\"E\"}]}'',
            body_json = Return (JObj [(''data'', JArr [JObj [(''title'', JStr ''A''), (''url'', JStr ''https://a.example''),
                (''description'', JStr ''first''), (''date'', JStr ''2024-01-01''),
                (''usage'', JObj [(''tokens'', JNum ''7'')])],
          JObj [(''title'', JStr ''B'')],
          JObj [(''title'', JStr ''C'')],
          JObj [(''title'', JStr ''D'')],
          JObj [(''title'', JStr ''E'')]])])\<rparr>)"
        and env = Map.empty and JSON_parse = "stub_parse (Return (JObj [(''data'', JArr [JObj [(''title'', JStr ''A''), (''url'', JStr ''https://a.example''),
                (''description'', JStr ''first''), (''date'', JStr ''2024-01-01''),
                (''usage'', JObj [(''tokens'', JNum ''7'')])],
          JObj [(''title'', JStr ''B'')],
          JObj [(''title'', JStr ''C'')],
          JObj [(''title'', JStr ''D'')],
          JObj [(''title'', JStr ''E'')]])]))"
        and a = "\<lparr>query = ''rust'', count = 2, returnFormat = Fmt_markdown, siteFilter = None\<rparr>"
        and r = "\<lparr>status = 200,
            body_text = Return ''{\"data\":[{\"title\":\"A\",\"url\":\"https://a.example\",\"description\":\"first\",\"date\":\"2024-01-01\",\"usage\":{\"tokens\":7}},{\"title\":\"B\"},{\"title\":\"C\"},{\"title\":\"D\"},{\"title\":\"E\"}]}'',
            body_json = Return (JObj [(''data'', JArr [JObj [(''title'', JStr ''A''), (''url'', JStr ''https://a.example''),
                (''description'', JStr ''first''), (''date'', JStr ''2024-01-01''),
                (''usage'', JObj [(''tokens'', JNum ''7'')])],
          JObj [(''title'', JStr ''B'')],
          JObj [(''title'', JStr ''C'')],
          JObj [(''title'', JStr ''D'')],
          JObj [(''title'', JStr ''E'')]])])\<rparr>"
        and b = "''{\"data\":[{\"title\":\"A\",\"url\":\"https://a.example\",\"description\":\"first\",\"date\":\"2024-01-01\",\"usage\":{\"tokens\":7}},{\"title\":\"B\"},{\"title\":\"C\"},{\"title\":\"D\"},{\"title\":\"E\"}]}''"
        and data = "JObj [(''data'', JArr [JObj [(''title'', JStr ''A''), (''url'', JStr ''https://a.example''),
                (''description'', JStr ''first''), (''date'', JStr ''2024-01-01''),
                (''usage'', JObj [(''tokens'', JNum ''7'')])],
          JObj [(''title'', JStr ''B'')],
          JObj [(''title'', JStr ''C'')],
          JObj [(''title'', JStr ''D'')],
          JObj [(''title'', JStr ''E'')]])]"
        and results = "[JObj [(''title'', JStr ''A''), (''url'', JStr ''https://a.example''),
                (''description'', JStr ''first''), (''date'', JStr ''2024-01-01''),
                (''usage'', JObj [(''tokens'', JNum ''7'')])], JObj [(''title'', JStr ''B'')], JObj [(''title'', JStr ''C'')], JObj [(''title'', JStr ''D'')], JObj [(''title'', JStr ''E'')]]" and k = 2
        and titles = "nth [''A'', ''B'']" and urls = "nth [''https://a.example'', []]"
        and descriptions = "nth [''first'', []]" and dates = "nth [''Date: 2024-01-01'', []]"]
    truncation_to_count [where fetch = "stub_fetch (Return \<lparr>status = 200,
            body_text = Return ''{\"data\":[{\"title\":\"A\",\"url\":\"https://a.example\",\"description\":\"first\",\"date\":\"2024-01-01\",\"usage\":{\"tokens\":7}},{\"title\":\"B\"},{\"title\":\"C\"},{\"title\":\"D\"},{\"title\":\"E\"}]}'',
            body_json = Return (JObj [(''data'', JArr [JObj [(''title'', JStr ''A''), (''url'', JStr ''https://a.example''),
                (''description'', JStr ''first''), (''date'', JStr ''2024-01-01''),
                (''usage'', JObj [(''tokens'', JNum ''7'')])],
          JObj [(''title'', JStr ''B'')],
          JObj [(''title'', JStr ''C'')],
          JObj [(''title'', JStr ''D'')],
          JObj [(''title'', JStr ''E'')]])])\<rparr>)"
        and env = Map.empty and JSON_parse = "stub_parse (Return (JObj [(''data'', JArr [JObj [(''title'', JStr ''A''), (''url'', JStr ''https://a.example''),
                (''description'', JStr ''first''), (''date'', JStr ''2024-01-01''),
                (''usage'', JObj [(''tokens'', JNum ''7'')])],
          JObj [(''title'', JStr ''B'')],
          JObj [(''title'', JStr ''C'')],
          JObj [(''title'', JStr ''D'')],
          JObj [(''title'', JStr ''E'')]])]))"
        and a = "\<lparr>query = ''rust'', count = 2, returnFormat = Fmt_html, siteFilter = None\<rparr>"
        and r = "\<lparr>status = 200,
            body_text = Return ''{\"data\":[{\"title\":\"A\",\"url\":\"https://a.example\",\"description\":\"first\",\"date\":\"2024-01-01\",\"usage\":{\"tokens\":7}},{\"title\":\"B\"},{\"title\":\"C\"},{\"title\":\"D\"},{\"title\":\"E\"}]}'',
            body_json = Return (JObj [(''data'', JArr [JObj [(''title'', JStr ''A''), (''url'', JStr ''https://a.example''),
                (''description'', JStr ''first''), (''date'', JStr ''2024-01-01''),
                (''usage'', JObj [(''tokens'', JNum ''7'')])],
          JObj [(''title'', JStr ''B'')],
          JObj [(''title'', JStr ''C'')],
          JObj [(''title'', JStr ''D'')],
          JObj [(''title'', JStr ''E'')]])])\<rparr>"
        and b = "''{\"data\":[{\"title\":\"A\",\"url\":\"https://a.example\",\"description\":\"first\",\"date\":\"2024-01-01\",\"usage\":{\"tokens\":7}},{\"title\":\"B\"},{\"title\":\"C\"},{\"title\":\"D\"},{\"title\":\"E\"}]}''"
        and data = "JObj [(''data'', JArr [JObj [(''title'', JStr ''A''), (''url'', JStr ''https://a.example''),
                (''description'', JStr ''first''), (''date'', JStr ''2024-01-01''),
                (''usage'', JObj [(''tokens'', JNum ''7'')])],
          JObj [(''title'', JStr ''B'')],
          JObj [(''title'', JStr ''C'')],
          JObj [(''title'', JStr ''D'')],
          JObj [(''title'', JStr ''E'')]])]"
        and results = "[JObj [(''title'', JStr ''A''), (''url'', JStr ''https://a.example''),
                (''description'', JStr ''first''), (''date'', JStr ''2024-01-01''),
                (''usage'', JObj [(''tokens'', JNum ''7'')])], JObj [(''title'', JStr ''B'')], JObj [(''title'', JStr ''C'')], JObj [(''title'', JStr ''D'')], JObj [(''title'', JStr ''E'')]]" and k = 2
        and titles = "nth [''A'', ''B'']" and urls = "nth [''https://a.example'', []]"
        and descriptions = "nth [''first'', []]" and dates = "nth [''Date: 2024-01-01'', []]"]
    truncation_to_count [where fetch = "stub_fetch (Return \<lparr>status = 200,
            body_text = Return ''{\"data\":[{\"title\":\"A\",\"url\":\"https://a.example\",\"description\":\"first\",\"date\":\"2024-01-01\",\"usage\":{\"tokens\":7}},{\"title\":\"B\"},{\"title\":\"C\"},{\"title\":\"D\"},{\"title\":\"E\"}]}'',
            body_json = Return (JObj [(''data'', JArr [JObj [(''title'', JStr ''A''), (''url'', JStr ''https://a.example''),
                (''description'', JStr ''first''), (''date'', JStr ''2024-01-01''),
                (''usage'', JObj [(''tokens'', JNum ''7'')])],
          JObj [(''title'', JStr ''B'')],
          JObj [(''title'', JStr ''C'')],
          JObj [(''title'', JStr ''D'')],
          JObj [(''title'', JStr ''E'')]])])\<rparr>)"
        and env = Map.empty and JSON_parse = "stub_parse (Return (JObj [(''data'', JArr [JObj [(''title'', JStr ''A''), (''url'', JStr ''https://a.example''),
                (''description'', JStr ''first''), (''date'', JStr ''2024-01-01''),
                (''usage'', JObj [(''tokens'', JNum ''7'')])],
          JObj [(''title'', JStr ''B'')],
          JObj [(''title'', JStr ''C'')],
          JObj [(''title'', JStr ''D'')],
          JObj [(''title'', JStr ''E'')]])]))"
        and a = "\<lparr>query = ''rust'', count = 2, returnFormat = Fmt_text, siteFilter = None\<rparr>"
        and r = "\<lparr>status = 200,
            body_text = Return ''{\"data\":[{\"title\":\"A\",\"url\":\"https://a.example\",\"description\":\"first\",\"date\":\"2024-01-01\",\"usage\":{\"tokens\":7}},{\"title\":\"B\"},{\"title\":\"C\"},{\"title\":\"D\"},{\"title\":\"E\"}]}'',
            body_json = Return (JObj [(''data'', JArr [JObj [(''title'', JStr ''A''), (''url'', JStr ''https://a.example''),
                (''description'', JStr ''first''), (''date'', JStr ''2024-01-01''),
                (''usage'', JObj [(''tokens'', JNum ''7'')])],
          JObj [(''title'', JStr ''B'')],
          JObj [(''title'', JStr ''C'')],
          JObj [(''title'', JStr ''D'')],
          JObj [(''title'', JStr ''E'')]])])\<rparr>"
        and b = "''{\"data\":[{\"title\":\"A\",\"url\":\"https://a.example\",\"description\":\"first\",\"date\":\"2024-01-01\",\"usage\":{\"tokens\":7}},{\"title\":\"B\"},{\"title\":\"C\"},{\"title\":\"D\"},{\"title\":\"E\"}]}''"
        and data = "JObj [(''data'', JArr [JObj [(''title'', JStr ''A''), (''url'', JStr ''https://a.example''),
                (''description'', JStr ''first''), (''date'', JStr ''2024-01-01''),
                (''usage'', JObj [(''tokens'', JNum ''7'')])],
          JObj [(''title'', JStr ''B'')],
          JObj [(''title'', JStr ''C'')],
          JObj [(''title'', JStr ''D'')],
          JObj [(''title'', JStr ''E'')]])]"
        and results = "[JObj [(''title'', JStr ''A''), (''url'', JStr ''https://a.example''),
                (''description'', JStr ''first''), (''date'', JStr ''2024-01-01''),
                (''usage'', JObj [(''tokens'', JNum ''7'')])], JObj [(''title'', JStr ''B'')], JObj [(''title'', JStr ''C'')], JObj [(''title'', JStr ''D'')], JObj [(''title'', JStr ''E'')]]" and k = 2
        and titles = "nth [''A'', ''B'']" and urls = "nth [''https://a.example'', []]"
        and descriptions = "nth [''first'', []]" and dates = "nth [''Date: 2024-01-01'', []]"]
  by (simp add: stub_fetch_def stub_parse_def ok_def or_text_def show_nat_1 show_nat_2 upt_rec
        numeral_2_eq_2 less_Suc_eq)

text \<open>
  Claim C8, as stated, fails: with \<open>count\<close> 0 and an upstream list that holds a \<open>null\<close>
  item the handler formats no item and returns an error envelope, and so it does with
  \<open>count\<close> -1 when an item has a title whose conversion to a string throws.
\<close>

theorem no_truncation_counterexample:
  \<open>jina_search Map.empty
     (stub_fetch (Return \<lparr>status = 200,
        body_text = Return ''{"data":[{"title":"A"},null]}'',
        body_json = Return (JObj [(''data'', JArr [JObj [(''title'', JStr ''A'')],
          JNull])])\<rparr>))
     (stub_parse (Return (JObj [(''data'', JArr [JObj [(''title'', JStr ''A'')],
          JNull])])))
     \<lparr>query = ''rust'', count = 0, returnFormat = Fmt_markdown, siteFilter = None\<rparr>
   = \<lparr>content = [TextContent (JStr (''Error: Cannot read properties of null (reading '' @ [CHR 0x27] @ ''usage'' @ [CHR 0x27] @ '')''))], isError = Some True\<rparr>
   \<and> jina_search Map.empty
     (stub_fetch (Return \<lparr>status = 200,
        body_text = Return ''{"data":[{"title":{"toString":null}}]}'',
        body_json = Return (JObj [(''data'', JArr [JObj [(''title'', JObj [(''toString'', JNull)])]])])\<rparr>))
     (stub_parse (Return (JObj [(''data'', JArr [JObj [(''title'', JObj [(''toString'', JNull)])]])])))
     \<lparr>query = ''rust'', count = - 1, returnFormat = Fmt_markdown, siteFilter = None\<rparr>
   = \<lparr>content = [TextContent (JStr ''Error: Cannot convert object to primitive value'')], isError = Some True\<rparr>\<close>
  by (simp add: jina_search_def jina_search_try_def stub_fetch_def stub_parse_def ok_def
        search_results_def read_prop_def truncate_results_def respond_def strip_usage_def
        formattedOutput_def indexed_def markdown_item_def or_text_def catch_def
        error_envelope_def upt_rec numeral_2_eq_2)

text \<open>
  Claim C8, amended. For a 2xx response whose parsed body holds the result list
  \<open>results\<close> and a \<open>count\<close> that is zero or negative: nothing is cut. When no item is
  \<open>null\<close> and the titles, urls, descriptions and dates of the items convert to strings, the
  returned text consists of one entry for every item of the list, the \<open>i\<close>-th written
  from the fields of the \<open>i\<close>-th item, put together as the renderer does.
\<close>

theorem no_truncation_without_positive_count:
  assumes "fetch (search_request env a) = Return r" and "ok r"
    and "body_text r = Return b" and "JSON_parse b = Return data"
    and "member data ''data'' = Some (JArr results)"
    and "count a \<le> 0"
    and fields: "\<forall>i < length results. results ! i \<noteq> JNull
        \<and> or_text (member (results ! i) ''title'') ''Untitled'' = Return (titles i)
        \<and> or_text (member (results ! i) ''url'') [] = Return (urls i)
        \<and> or_text (member (results ! i) ''description'') [] = Return (descriptions i)
        \<and> date_text (member (results ! i) ''date'') = Return (dates i)"
  shows "truncate_results (count a) results = results
    \<and> jina_search env fetch JSON_parse a =
        \<lparr>content = [TextContent (JStr
      (if returnFormat a = Fmt_markdown then
         join [CHR 0x0A] (map (\<lambda>i. show_nat (i + 1) @ ''. **'' @ titles i @ ''**''
            @ [CHR 0x0A] @ ''   '' @ urls i
            @ [CHR 0x0A] @ ''   '' @ descriptions i
            @ [CHR 0x0A] @ ''   '' @ dates i @ [CHR 0x0A]) [0..<length results])
       else if returnFormat a = Fmt_html then
         ''<ol>'' @ join [] (map (\<lambda>i. ''<li><strong>'' @ titles i @ ''</strong><br>''
            @ [CHR 0x0A] @ ''           '' @ ''<a href='' @ [CHR 0x22] @ urls i @ [CHR 0x22] @ ''>'' @ urls i @ ''</a><br>''
            @ [CHR 0x0A] @ ''           '' @ descriptions i @ ''<br>''
            @ [CHR 0x0A] @ ''           '' @ dates i @ ''</li>'') [0..<length results]) @ ''</ol>''
       else
         join [CHR 0x0A, CHR 0x0A] (map (\<lambda>i. show_nat (i + 1) @ ''. '' @ titles i
            @ [CHR 0x0A] @ ''   '' @ urls i
            @ [CHR 0x0A] @ ''   '' @ descriptions i
            @ [CHR 0x0A] @ ''   '' @ dates i) [0..<length results])))],
         isError = None\<rparr>"
proof -
  have keep: "truncate_results (count a) results = results"
    using assms(6) by (simp add: truncate_results_def)
  then have run: "jina_search env fetch JSON_parse a = catch (respond (returnFormat a) results)"
    using jina_search_ok [of "fetch" env a r b JSON_parse data] assms(1-5)
    by (simp add: search_results_array)
  from respond_rendered [OF fields, of "returnFormat a"] run
  have "jina_search env fetch JSON_parse a =
        \<lparr>content = [TextContent (JStr
      (if returnFormat a = Fmt_markdown then
         join [CHR 0x0A] (map (\<lambda>i. show_nat (i + 1) @ ''. **'' @ titles i @ ''**''
            @ [CHR 0x0A] @ ''   '' @ urls i
            @ [CHR 0x0A] @ ''   '' @ descriptions i
            @ [CHR 0x0A] @ ''   '' @ dates i @ [CHR 0x0A]) [0..<length results])
       else if returnFormat a = Fmt_html then
         ''<ol>'' @ join [] (map (\<lambda>i. ''<li><strong>'' @ titles i @ ''</strong><br>''
            @ [CHR 0x0A] @ ''           '' @ ''<a href='' @ [CHR 0x22] @ urls i @ [CHR 0x22] @ ''>'' @ urls i @ ''</a><br>''
            @ [CHR 0x0A] @ ''           '' @ descriptions i @ ''<br>''
            @ [CHR 0x0A] @ ''           '' @ dates i @ ''</li>'') [0..<length results]) @ ''</ol>''
       else
         join [CHR 0x0A, CHR 0x0A] (map (\<lambda>i. show_nat (i + 1) @ ''. '' @ titles i
            @ [CHR 0x0A] @ ''   '' @ urls i
            @ [CHR 0x0A] @ ''   '' @ descriptions i
            @ [CHR 0x0A] @ ''   '' @ dates i) [0..<length results])))],
         isError = None\<rparr>"
    by (simp add: catch_Return)
  with keep show ?thesis
    by blast
qed

theorem no_truncation_witness:
  \<open>jina_search Map.empty
     (stub_fetch (Return \<lparr>status = 200,
        body_text = Return ''{"data":[{"title":"A","url":"https://a.example","description":"first","date":"2024-01-01","usage":{"tokens":7}},{"title":"B"}]}'',
        body_json = Return (JObj [(''data'', JArr [JObj [(''title'', JStr ''A''), (''url'', JStr ''https://a.example''),
                (''description'', JStr ''first''), (''date'', JStr ''2024-01-01''),
                (''usage'', JObj [(''tokens'', JNum ''7'')])],
          JObj [(''title'', JStr ''B'')]])])\<rparr>))
     (stub_parse (Return (JObj [(''data'', JArr [JObj [(''title'', JStr ''A''), (''url'', JStr ''https://a.example''),
                (''description'', JStr ''first''), (''date'', JStr ''2024-01-01''),
                (''usage'', JObj [(''tokens'', JNum ''7'')])],
          JObj [(''title'', JStr ''B'')]])])))
     \<lparr>query = ''rust'', count = - 1, returnFormat = Fmt_markdown, siteFilter = None\<rparr>
   = \<lparr>content = [TextContent (JStr ''1. **A**\<newline>   https://a.example\<newline>   first\<newline>   Date: 2024-01-01\<newline>\<newline>2. **B**\<newline>   \<newline>   \<newline>   \<newline>'')], isError = None\<rparr>
   \<and> jina_search Map.empty
     (stub_fetch (Return \<lparr>status = 200,
        body_text = Return ''{"data":[{"title":"A","url":"https://a.example","description":"first","date":"2024-01-01","usage":{"tokens":7}},{"title":"B"}]}'',
        body_json = Return (JObj [(''data'', JArr [JObj [(''title'', JStr ''A''), (''url'', JStr ''https://a.example''),
                (''description'', JStr ''first''), (''date'', JStr ''2024-01-01''),
                (''usage'', JObj [(''tokens'', JNum ''7'')])],
          JObj [(''title'', JStr ''B'')]])])\<rparr>))
     (stub_parse (Return (JObj [(''data'', JArr [JObj [(''title'', JStr ''A''), (''url'', JStr ''https://a.example''),
                (''description'', JStr ''first''), (''date'', JStr ''2024-01-01''),
                (''usage'', JObj [(''tokens'', JNum ''7'')])],
          JObj [(''title'', JStr ''B'')]])])))
     \<lparr>query = ''rust'', count = 0, returnFormat = Fmt_html, siteFilter = None\<rparr>
   = \<lparr>content = [TextContent (JStr ''<ol><li><strong>A</strong><br>\<newline>           <a href="https://a.example">https://a.example</a><br>\<newline>           first<br>\<newline>           Date: 2024-01-01</li><li><strong>B</strong><br>\<newline>           <a href=""></a><br>\<newline>           <br>\<newline>           </li></ol>'')], isError = None\<rparr>
   \<and> jina_search Map.empty
     (stub_fetch (Return \<lparr>status = 200,
        body_text = Return ''{"data":[{"title":"A","url":"https://a.example","description":"first","date":"2024-01-01","usage":{"tokens":7}},{"title":"B"}]}'',
        body_json = Return (JObj [(''data'', JArr [JObj [(''title'', JStr ''A''), (''url'', JStr ''https://a.example''),
                (''description'', JStr ''first''), (''date'', JStr ''2024-01-01''),
                (''usage'', JObj [(''tokens'', JNum ''7'')])],
          JObj [(''title'', JStr ''B'')]])])\<rparr>))
     (stub_parse (Return (JObj [(''data'', JArr [JObj [(''title'', JStr ''A''), (''url'', JStr ''https://a.example''),
                (''description'', JStr ''first''), (''date'', JStr ''2024-01-01''),
                (''usage'', JObj [(''tokens'', JNum ''7'')])],
          JObj [(''title'', JStr ''B'')]])])))
     \<lparr>query = ''rust'', count = - 1, returnFormat = Fmt_text, siteFilter = None\<rparr>
   = \<lparr>content = [TextContent (JStr ''1. A\<newline>   https://a.example\<newline>   first\<newline>   Date: 2024-01-01\<newline>\<newline>2. B\<newline>   \<newline>   \<newline>   '')], isError = None\<rparr>\<close>
  using no_truncation_without_positive_count [where fetch = "stub_fetch (Return \<lparr>status = 200,
            body_text = Return ''{\"data\":[{\"title\":\"A\",\"url\":\"https://a.example\",\"description\":\"first\",\"date\":\"2024-01-01\",\"usage\":{\"tokens\":7}},{\"title\":\"B\"}]}'',
            body_json = Return (JObj [(''data'', JArr [JObj [(''title'', JStr ''A''), (''url'', JStr ''https://a.example''),
                (''description'', JStr ''first''), (''date'', JStr ''2024-01-01''),
                (''usage'', JObj [(''tokens'', JNum ''7'')])],
          JObj [(''title'', JStr ''B'')]])])\<rparr>)"
        and env = Map.empty and JSON_parse = "stub_parse (Return (JObj [(''data'', JArr [JObj [(''title'', JStr ''A''), (''url'', JStr ''https://a.example''),
                (''description'', JStr ''first''), (''date'', JStr ''2024-01-01''),
                (''usage'', JObj [(''tokens'', JNum ''7'')])],
          JObj [(''title'', JStr ''B'')]])]))"
        and a = "\<lparr>query = ''rust'', count = - 1, returnFormat = Fmt_markdown, siteFilter = None\<rparr>"
        and r = "\<lparr>status = 200,
            body_text = Return ''{\"data\":[{\"title\":\"A\",\"url\":\"https://a.example\",\"description\":\"first\",\"date\":\"2024-01-01\",\"usage\":{\"tokens\":7}},{\"title\":\"B\"}]}'',
            body_json = Return (JObj [(''data'', JArr [JObj [(''title'', JStr ''A''), (''url'', JStr ''https://a.example''),
                (''description'', JStr ''first''), (''date'', JStr ''2024-01-01''),
                (''usage'', JObj [(''tokens'', JNum ''7'')])],
          JObj [(''title'', JStr ''B'')]])])\<rparr>"
        and b = "''{\"data\":[{\"title\":\"A\",\"url\":\"https://a.example\",\"description\":\"first\",\"date\":\"2024-01-01\",\"usage\":{\"tokens\":7}},{\"title\":\"B\"}]}''"
        and data = "JObj [(''data'', JArr [JObj [(''title'', JStr ''A''), (''url'', JStr ''https://a.example''),
                (''description'', JStr ''first''), (''date'', JStr ''2024-01-01''),
                (''usage'', JObj [(''tokens'', JNum ''7'')])],
          JObj [(''title'', JStr ''B'')]])]"
        and results = "[JObj [(''title'', JStr ''A''), (''url'', JStr ''https://a.example''),
                (''description'', JStr ''first''), (''date'', JStr ''2024-01-01''),
                (''usage'', JObj [(''tokens'', JNum ''7'')])], JObj [(''title'', JStr ''B'')]]"
        and titles = "nth [''A'', ''B'']" and urls = "nth [''https://a.example'', []]"
        and descriptions = "nth [''first'', []]" and dates = "nth [''Date: 2024-01-01'', []]"]
    no_truncation_without_positive_count [where fetch = "stub_fetch (Return \<lparr>status = 200,
            body_text = Return ''{\"data\":[{\"title\":\"A\",\"url\":\"https://a.example\",\"description\":\"first\",\"date\":\"2024-01-01\",\"usage\":{\"tokens\":7}},{\"title\":\"B\"}]}'',
            body_json = Return (JObj [(''data'', JArr [JObj [(''title'', JStr ''A''), (''url'', JStr ''https://a.example''),
                (''description'', JStr ''first''), (''date'', JStr ''2024-01-01''),
                (''usage'', JObj [(''tokens'', JNum ''7'')])],
          JObj [(''title'', JStr ''B'')]])])\<rparr>)"
        and env = Map.empty and JSON_parse = "stub_parse (Return (JObj [(''data'', JArr [JObj [(''title'', JStr ''A''), (''url'', JStr ''https://a.example''),
                (''description'', JStr ''first''), (''date'', JStr ''2024-01-01''),
                (''usage'', JObj [(''tokens'', JNum ''7'')])],
          JObj [(''title'', JStr ''B'')]])]))"
        and a = "\<lparr>query = ''rust'', count = 0, returnFormat = Fmt_html, siteFilter = None\<rparr>"
        and r = "\<lparr>status = 200,
            body_text = Return ''{\"data\":[{\"title\":\"A\",\"url\":\"https://a.example\",\"description\":\"first\",\"date\":\"2024-01-01\",\"usage\":{\"tokens\":7}},{\"title\":\"B\"}]}'',
            body_json = Return (JObj [(''data'', JArr [JObj [(''title'', JStr ''A''), (''url'', JStr ''https://a.example''),
                (''description'', JStr ''first''), (''date'', JStr ''2024-01-01''),
                (''usage'', JObj [(''tokens'', JNum ''7'')])],
          JObj [(''title'', JStr ''B'')]])])\<rparr>"
        and b = "''{\"data\":[{\"title\":\"A\",\"url\":\"https://a.example\",\"description\":\"first\",\"date\":\"2024-01-01\",\"usage\":{\"tokens\":7}},{\"title\":\"B\"}]}''"
        and data = "JObj [(''data'', JArr [JObj [(''title'', JStr ''A''), (''url'', JStr ''https://a.example''),
                (''description'', JStr ''first''), (''date'', JStr ''2024-01-01''),
                (''usage'', JObj [(''tokens'', JNum ''7'')])],
          JObj [(''title'', JStr ''B'')]])]"
        and results = "[JObj [(''title'', JStr ''A''), (''url'', JStr ''https://a.example''),
                (''description'', JStr ''first''), (''date'', JStr ''2024-01-01''),
                (''usage'', JObj [(''tokens'', JNum ''7'')])], JObj [(''title'', JStr ''B'')]]"
        and titles = "nth [''A'', ''B'']" and urls = "nth [''https://a.example'', []]"
        and descriptions = "nth [''first'', []]" and dates = "nth [''Date: 2024-01-01'', []]"]
    no_truncation_without_positive_count [where fetch = "stub_fetch (Return \<lparr>status = 200,
            body_text = Return ''{\"data\":[{\"title\":\"A\",\"url\":\"https://a.example\",\"description\":\"first\",\"date\":\"2024-01-01\",\"usage\":{\"tokens\":7}},{\"title\":\"B\"}]}'',
            body_json = Return (JObj [(''data'', JArr [JObj [(''title'', JStr ''A''), (''url'', JStr ''https://a.example''),
                (''description'', JStr ''first''), (''date'', JStr ''2024-01-01''),
                (''usage'', JObj [(''tokens'', JNum ''7'')])],
          JObj [(''title'', JStr ''B'')]])])\<rparr>)"
        and env = Map.empty and JSON_parse = "stub_parse (Return (JObj [(''data'', JArr [JObj [(''title'', JStr ''A''), (''url'', JStr ''https://a.example''),
                (''description'', JStr ''first''), (''date'', JStr ''2024-01-01''),
                (''usage'', JObj [(''tokens'', JNum ''7'')])],
          JObj [(''title'', JStr ''B'')]])]))"
        and a = "\<lparr>query = ''rust'', count = - 1, returnFormat = Fmt_text, siteFilter = None\<rparr>"
        and r = "\<lparr>status = 200,
            body_text = Return ''{\"data\":[{\"title\":\"A\",\"url\":\"https://a.example\",\"description\":\"first\",\"date\":\"2024-01-01\",\"usage\":{\"tokens\":7}},{\"title\":\"B\"}]}'',
            body_json = Return (JObj [(''data'', JArr [JObj [(''title'', JStr ''A''), (''url'', JStr ''https://a.example''),
                (''description'', JStr ''first''), (''date'', JStr ''2024-01-01''),
                (''usage'', JObj [(''tokens'', JNum ''7'')])],
          JObj [(''title'', JStr ''B'')]])])\<rparr>"
        and b = "''{\"data\":[{\"title\":\"A\",\"url\":\"https://a.example\",\"description\":\"first\",\"date\":\"2024-01-01\",\"usage\":{\"tokens\":7}},{\"title\":\"B\"}]}''"
        and data = "JObj [(''data'', JArr [JObj [(''title'', JStr ''A''), (''url'', JStr ''https://a.example''),
                (''description'', JStr ''first''), (''date'', JStr ''2024-01-01''),
                (''usage'', JObj [(''tokens'', JNum ''7'')])],
          JObj [(''title'', JStr ''B'')]])]"
        and results = "[JObj [(''title'', JStr ''A''), (''url'', JStr ''https://a.example''),
                (''description'', JStr ''first''), (''date'', JStr ''2024-01-01''),
                (''usage'', JObj [(''tokens'', JNum ''7'')])], JObj [(''title'', JStr ''B'')]]"
        and titles = "nth [''A'', ''B'']" and urls = "nth [''https://a.example'', []]"
        and descriptions = "nth [''first'', []]" and dates = "nth [''Date: 2024-01-01'', []]"]
  by (simp add: stub_fetch_def stub_parse_def ok_def or_text_def show_nat_1 show_nat_2 upt_rec
        numeral_2_eq_2 less_Suc_eq)

section \<open>The jina\_search tool: formatting\<close>

text \<open>
  Claim C2, as stated, fails: an item without \<open>date\<close> still gets the line of the date, left
  blank. The markdown and text renderings end with a line of three spaces, and the html
  rendering has the line break and the indentation before \<open></li>\<close>.
\<close>

theorem date_line_counterexample:
  \<open>formattedOutput Fmt_markdown
     [JObj [(''title'', JStr ''T''), (''url'', JStr ''U''), (''description'', JStr ''D'')]]
   = Return ''1. **T**\<newline>   U\<newline>   D\<newline>   \<newline>''
   \<and> formattedOutput Fmt_text
     [JObj [(''title'', JStr ''T''), (''url'', JStr ''U''), (''description'', JStr ''D'')]]
   = Return ''1. T\<newline>   U\<newline>   D\<newline>   ''
   \<and> formattedOutput Fmt_html
     [JObj [(''title'', JStr ''T''), (''url'', JStr ''U''), (''description'', JStr ''D'')]]
   = Return ''<ol><li><strong>T</strong><br>\<newline>           <a href="U">U</a><br>\<newline>           D<br>\<newline>           </li></ol>''
   \<and> formattedOutput Fmt_markdown
     [JObj [(''title'', JStr ''T''), (''url'', JStr ''U''), (''description'', JStr ''D'')]]
   \<noteq> Return ''1. **T**\<newline>   U\<newline>   D\<newline>''
   \<and> formattedOutput Fmt_text
     [JObj [(''title'', JStr ''T''), (''url'', JStr ''U''), (''description'', JStr ''D'')]]
   \<noteq> Return ''1. T\<newline>   U\<newline>   D''
   \<and> formattedOutput Fmt_html
     [JObj [(''title'', JStr ''T''), (''url'', JStr ''U''), (''description'', JStr ''D'')]]
   \<noteq> Return ''<ol><li><strong>T</strong><br>\<newline>           <a href="U">U</a><br>\<newline>           D<br></li></ol>''\<close>
  by (simp add: formattedOutput_def indexed_def markdown_item_def text_item_def html_item_def
        read_prop_def or_text_def show_nat_1)

text \<open>
  Claim C2, amended. For an item that is not \<open>null\<close> and whose title, url and description
  convert to the strings \<open>t\<close>, \<open>u\<close> and \<open>d\<close>: without \<open>date\<close>, every renderer puts the empty
  string where the date text goes, so the item gets no \<open>Date:\<close> text from its date and the
  line is kept with nothing but its indentation; with a \<open>date\<close> that is a non-empty string
  \<open>s\<close> (as \<open>2024-01-01\<close>) the line reads \<open>Date: s\<close>.
\<close>

theorem date_line_rendering:
  assumes "result \<noteq> JNull"
    and "or_text (member result ''title'') ''Untitled'' = Return t"
    and "or_text (member result ''url'') [] = Return u"
    and "or_text (member result ''description'') [] = Return d"
  shows "(member result ''date'' = None \<longrightarrow>
      markdown_item i result
        = Return (show_nat (i + 1) @ ''. **'' @ t @ ''**''
            @ [CHR 0x0A] @ ''   '' @ u
            @ [CHR 0x0A] @ ''   '' @ d
            @ [CHR 0x0A] @ ''   '' @ [] @ [CHR 0x0A])
      \<and> text_item i result
        = Return (show_nat (i + 1) @ ''. '' @ t
            @ [CHR 0x0A] @ ''   '' @ u
            @ [CHR 0x0A] @ ''   '' @ d
            @ [CHR 0x0A] @ ''   '' @ [])
      \<and> html_item result
        = Return (''<li><strong>'' @ t @ ''</strong><br>''
            @ [CHR 0x0A] @ ''           '' @ ''<a href='' @ [CHR 0x22] @ u @ [CHR 0x22] @ ''>'' @ u @ ''</a><br>''
            @ [CHR 0x0A] @ ''           '' @ d @ ''<br>''
            @ [CHR 0x0A] @ ''           '' @ [] @ ''</li>''))
    \<and> (\<forall>s. member result ''date'' = Some (JStr s) \<and> s \<noteq> [] \<longrightarrow>
      markdown_item i result
        = Return (show_nat (i + 1) @ ''. **'' @ t @ ''**''
            @ [CHR 0x0A] @ ''   '' @ u
            @ [CHR 0x0A] @ ''   '' @ d
            @ [CHR 0x0A] @ ''   '' @ (''Date: '' @ s) @ [CHR 0x0A])
      \<and> text_item i result
        = Return (show_nat (i + 1) @ ''. '' @ t
            @ [CHR 0x0A] @ ''   '' @ u
            @ [CHR 0x0A] @ ''   '' @ d
            @ [CHR 0x0A] @ ''   '' @ (''Date: '' @ s))
      \<and> html_item result
        = Return (''<li><strong>'' @ t @ ''</strong><br>''
            @ [CHR 0x0A] @ ''           '' @ ''<a href='' @ [CHR 0x22] @ u @ [CHR 0x22] @ ''>'' @ u @ ''</a><br>''
            @ [CHR 0x0A] @ ''           '' @ d @ ''<br>''
            @ [CHR 0x0A] @ ''           '' @ (''Date: '' @ s) @ ''</li>''))"
  using assms
  by (simp add: markdown_item_eq text_item_eq html_item_eq)

theorem date_line_rendering_witness:
  \<open>markdown_item 0 (JObj [(''title'', JStr ''T''), (''url'', JStr ''U''), (''description'', JStr ''D'')])
     = Return ''1. **T**\<newline>   U\<newline>   D\<newline>   \<newline>''
   \<and> text_item 0 (JObj [(''title'', JStr ''T''), (''url'', JStr ''U''), (''description'', JStr ''D'')])
     = Return ''1. T\<newline>   U\<newline>   D\<newline>   ''
   \<and> html_item (JObj [(''title'', JStr ''T''), (''url'', JStr ''U''), (''description'', JStr ''D'')])
     = Return ''<li><strong>T</strong><br>\<newline>           <a href="U">U</a><br>\<newline>           D<br>\<newline>           </li>''
   \<and> markdown_item 0 (JObj [(''title'', JStr ''T''), (''url'', JStr ''U''),
                           (''description'', JStr ''D''), (''date'', JStr ''2024-01-01'')])
     = Return ''1. **T**\<newline>   U\<newline>   D\<newline>   Date: 2024-01-01\<newline>''
   \<and> text_item 0 (JObj [(''title'', JStr ''T''), (''url'', JStr ''U''),
                       (''description'', JStr ''D''), (''date'', JStr ''2024-01-01'')])
     = Return ''1. T\<newline>   U\<newline>   D\<newline>   Date: 2024-01-01''
   \<and> html_item (JObj [(''title'', JStr ''T''), (''url'', JStr ''U''),
                     (''description'', JStr ''D''), (''date'', JStr ''2024-01-01'')])
     = Return ''<li><strong>T</strong><br>\<newline>           <a href="U">U</a><br>\<newline>           D<br>\<newline>           Date: 2024-01-01</li>''\<close>
  using date_line_rendering
          [where result = "JObj [(''title'', JStr ''T''), (''url'', JStr ''U''),
                                 (''description'', JStr ''D'')]"
             and i = 0 and t = "''T''" and u = "''U''" and d = "''D''"]
        date_line_rendering
          [where result = "JObj [(''title'', JStr ''T''), (''url'', JStr ''U''),
                                 (''description'', JStr ''D''), (''date'', JStr ''2024-01-01'')]"
             and i = 0 and t = "''T''" and u = "''U''" and d = "''D''"]
  by (simp add: or_text_def show_nat_1)

section \<open>The jina\_search tool: empty results\<close>

text \<open>
  Claim C10, as stated, fails: a 2xx body \<open>null\<close> has no \<open>data\<close> array and gives an error
  envelope, since reading \<open>data.data\<close> throws; so does a body whose \<open>data\<close> is an object,
  which has no \<open>map\<close>.
\<close>

theorem empty_results_counterexample:
  \<open>jina_search Map.empty
     (stub_fetch (Return \<lparr>status = 200, body_text = Return ''null'', body_json = Return JNull\<rparr>))
     (stub_parse (Return JNull))
     \<lparr>query = ''rust'', count = 5, returnFormat = Fmt_markdown, siteFilter = None\<rparr>
   = \<lparr>content = [TextContent (JStr
        (''Error: Cannot read properties of null (reading '' @ [CHR 0x27] @ ''data'' @ [CHR 0x27] @ '')''))],
      isError = Some True\<rparr>
   \<and> jina_search Map.empty
     (stub_fetch (Return \<lparr>status = 200, body_text = Return ''{"data":{}}'',
        body_json = Return (JObj [(''data'', JObj [])])\<rparr>))
     (stub_parse (Return (JObj [(''data'', JObj [])])))
     \<lparr>query = ''rust'', count = 5, returnFormat = Fmt_markdown, siteFilter = None\<rparr>
   = \<lparr>content = [TextContent (JStr ''Error: results.map is not a function'')],
      isError = Some True\<rparr>\<close>
  by (simp add: jina_search_def jina_search_try_def stub_fetch_def stub_parse_def ok_def
        search_results_def read_prop_def catch_def error_envelope_def)

text \<open>
  Claim C10, amended. For a 2xx response whose parsed body is not \<open>null\<close> and whose \<open>data\<close>
  is absent, an empty array, or falsy: the handler returns an envelope without \<open>isError\<close>
  whose text is the empty string under the markdown and text renderers and \<open><ol></ol>\<close>
  under the html renderer.
\<close>

theorem empty_results:
  assumes "fetch (search_request env a) = Return r" and "ok r"
    and "body_text r = Return b" and "JSON_parse b = Return data"
    and "data \<noteq> JNull"
    and "member data ''data'' = None
         \<or> member data ''data'' = Some (JArr [])
         \<or> (\<exists>v. member data ''data'' = Some v \<and> \<not> truthy v)"
  shows "jina_search env fetch JSON_parse a
           = \<lparr>content = [TextContent (JStr (if returnFormat a = Fmt_html then ''<ol></ol>'' else []))],
              isError = None\<rparr>"
proof -
  have "or_else (member data ''data'') (JArr []) = JArr []"
    using assms(6) by auto
  then have "search_results (count a) (returnFormat a) data = respond (returnFormat a) []"
    using assms(5) by (simp add: search_results_def read_prop_nonnull truncate_results_def)
  then show ?thesis
    using jina_search_ok [of "fetch" env a r b JSON_parse data] assms(1-4)
    by (simp add: respond_empty catch_def)
qed

theorem empty_results_witness:
  \<open>jina_search Map.empty
     (stub_fetch (Return \<lparr>status = 200, body_text = Return ''{"code":200}'',
        body_json = Return (JObj [(''code'', JNum ''200'')])\<rparr>))
     (stub_parse (Return (JObj [(''code'', JNum ''200'')])))
     \<lparr>query = ''rust'', count = 5, returnFormat = Fmt_markdown, siteFilter = None\<rparr>
   = \<lparr>content = [TextContent (JStr [])], isError = None\<rparr>
   \<and> jina_search Map.empty
     (stub_fetch (Return \<lparr>status = 200, body_text = Return ''{"data":[]}'',
        body_json = Return (JObj [(''data'', JArr [])])\<rparr>))
     (stub_parse (Return (JObj [(''data'', JArr [])])))
     \<lparr>query = ''rust'', count = 5, returnFormat = Fmt_html, siteFilter = None\<rparr>
   = \<lparr>content = [TextContent (JStr ''<ol></ol>'')], isError = None\<rparr>
   \<and> jina_search Map.empty
     (stub_fetch (Return \<lparr>status = 200, body_text = Return ''{"data":null}'',
        body_json = Return (JObj [(''data'', JNull)])\<rparr>))
     (stub_parse (Return (JObj [(''data'', JNull)])))
     \<lparr>query = ''rust'', count = 5, returnFormat = Fmt_text, siteFilter = None\<rparr>
   = \<lparr>content = [TextContent (JStr [])], isError = None\<rparr>\<close>
proof -
  let ?d1 = "JObj [(''code'', JNum ''200'')]"
  let ?r1 = \<open>\<lparr>status = 200, body_text = Return ''{"code":200}'', body_json = Return ?d1\<rparr>\<close>
  let ?d2 = "JObj [(''data'', JArr [])]"
  let ?r2 = \<open>\<lparr>status = 200, body_text = Return ''{"data":[]}'', body_json = Return ?d2\<rparr>\<close>
  let ?d3 = "JObj [(''data'', JNull)]"
  let ?r3 = \<open>\<lparr>status = 200, body_text = Return ''{"data":null}'', body_json = Return ?d3\<rparr>\<close>
  show ?thesis
    using empty_results [of "stub_fetch (Return ?r1)" Map.empty
            "\<lparr>query = ''rust'', count = 5, returnFormat = Fmt_markdown, siteFilter = None\<rparr>"
            ?r1 \<open>''{"code":200}''\<close> "stub_parse (Return ?d1)" ?d1]
          empty_results [of "stub_fetch (Return ?r2)" Map.empty
            "\<lparr>query = ''rust'', count = 5, returnFormat = Fmt_html, siteFilter = None\<rparr>"
            ?r2 \<open>''{"data":[]}''\<close> "stub_parse (Return ?d2)" ?d2]
          empty_results [of "stub_fetch (Return ?r3)" Map.empty
            "\<lparr>query = ''rust'', count = 5, returnFormat = Fmt_text, siteFilter = None\<rparr>"
            ?r3 \<open>''{"data":null}''\<close> "stub_parse (Return ?d3)" ?d3]
    by (simp add: stub_fetch_def stub_parse_def ok_def)
qed

end
